(* ===== verification/MC_Prelude.thy ===== *)
theory MC_Prelude
  imports Main "HOL-Library.AList"
begin

text \<open>
  Shared vocabulary of the development.

  \<^item> Python dictionaries are association lists driven by the operations of
    \<open>HOL-Library.AList\<close>: \<open>dict_set\<close> overwrites a key where it stands and
    appends a new key at the end, as an insertion-ordered \<open>dict\<close> does;
    \<open>dict_del\<close> is \<open>del d[k]\<close>; \<open>dict_get\<close> is \<open>d.get(k)\<close>.
  \<^item> \<open>split_on\<close> and \<open>join\<close> are \<open>str.split(sep)\<close> and \<open>sep.join(parts)\<close> for a
    one-character separator, with both round trips.
  \<^item> \<open>split_at_first\<close> cuts a list at the first occurrence of an element, the
    shape in which a body is read when one of its statements fails.
  \<^item> The collections \<open>src_defs\<close> (the constants that transcribe source text) and
    \<open>py_simps\<close> (evaluation rules of the Python fragment) carry the component
    proofs.
\<close>

section \<open>Theorem collections\<close>

named_theorems src_defs "definitions that transcribe the text of a source file"
named_theorems py_simps "evaluation rules of the modelled Python fragment"

section \<open>Dictionaries\<close>

type_synonym ('k, 'v) dict = "('k \<times> 'v) list"

abbreviation dict_get :: "('k, 'v) dict \<Rightarrow> 'k \<Rightarrow> 'v option" where
  "dict_get d k \<equiv> map_of d k"

abbreviation dict_set :: "'k \<Rightarrow> 'v \<Rightarrow> ('k, 'v) dict \<Rightarrow> ('k, 'v) dict" where
  "dict_set k v d \<equiv> AList.update k v d"

abbreviation dict_del :: "'k \<Rightarrow> ('k, 'v) dict \<Rightarrow> ('k, 'v) dict" where
  "dict_del k d \<equiv> AList.delete k d"

abbreviation dict_keys :: "('k, 'v) dict \<Rightarrow> 'k list" where
  "dict_keys d \<equiv> map fst d"

definition dict_has :: "('k, 'v) dict \<Rightarrow> 'k \<Rightarrow> bool" where
  "dict_has d k \<longleftrightarrow> map_of d k \<noteq> None"

definition move_to_end :: "'k \<Rightarrow> ('k, 'v) dict \<Rightarrow> ('k, 'v) dict" where
  "move_to_end k d = (case map_of d k of None \<Rightarrow> d | Some v \<Rightarrow> AList.delete k d @ [(k, v)])"

lemma dict_has_iff: "dict_has d k \<longleftrightarrow> k \<in> set (dict_keys d)"
  by (simp add: dict_has_def map_of_eq_None_iff)

lemma dict_has_Nil [simp]: "\<not> dict_has [] k"
  by (simp add: dict_has_def)

lemma dict_has_Cons [simp]: "dict_has (p # d) k \<longleftrightarrow> k = fst p \<or> dict_has d k"
  by (auto simp: dict_has_iff)

lemma dict_has_append [simp]: "dict_has (d @ e) k \<longleftrightarrow> dict_has d k \<or> dict_has e k"
  by (auto simp: dict_has_iff)

lemma dict_has_dict_set [simp]: "dict_has (dict_set k v d) k' \<longleftrightarrow> k' = k \<or> dict_has d k'"
  by (auto simp: dict_has_def update_conv')

lemma dict_has_dict_del [simp]: "dict_has (dict_del k d) k' \<longleftrightarrow> k' \<noteq> k \<and> dict_has d k'"
  by (auto simp: dict_has_def delete_conv')

lemma dict_get_dict_set [simp]:
  "dict_get (dict_set k v d) k' = (if k' = k then Some v else dict_get d k')"
  by (simp add: update_conv')

lemma dict_get_dict_del [simp]:
  "dict_get (dict_del k d) k' = (if k' = k then None else dict_get d k')"
  by (simp add: delete_conv')

lemma dict_get_None_iff: "dict_get d k = None \<longleftrightarrow> \<not> dict_has d k"
  by (simp add: dict_has_def)

lemma dict_del_absent [simp]: "\<not> dict_has d k \<Longrightarrow> dict_del k d = d"
  by (simp add: dict_has_iff)

lemma dict_del_dict_set_same [simp]: "dict_del k (dict_set k v d) = dict_del k d"
  by (simp add: delete_update_same)

lemma dict_del_dict_set_other:
  "k \<noteq> k' \<Longrightarrow> dict_del k (dict_set k' v d) = dict_set k' v (dict_del k d)"
  by (simp add: delete_update [of k' k])

lemma dict_has_move_to_end [simp]: "dict_has (move_to_end k d) k' \<longleftrightarrow> dict_has d k'"
  by (cases "map_of d k") (auto simp: move_to_end_def dict_has_def)

lemma dict_get_move_to_end [simp]: "dict_get (move_to_end k d) k' = dict_get d k'"
  by (auto simp: move_to_end_def map_add_def dict_has_def split: option.splits)

lemma distinct_move_to_end [simp]:
  "distinct (dict_keys d) \<Longrightarrow> distinct (dict_keys (move_to_end k d))"
  by (auto simp: move_to_end_def distinct_delete delete_keys distinct_removeAll
      split: option.splits)

lemma distinct_dict_set [simp]: "distinct (dict_keys d) \<Longrightarrow> distinct (dict_keys (dict_set k v d))"
  by (simp add: distinct_update)

lemma distinct_dict_del [simp]: "distinct (dict_keys d) \<Longrightarrow> distinct (dict_keys (dict_del k d))"
  by (simp add: distinct_delete)

section \<open>Splitting and joining on a separator\<close>

fun split_on :: "'a \<Rightarrow> 'a list \<Rightarrow> 'a list list" where
  "split_on c [] = [[]]"
| "split_on c (x # xs) =
     (if x = c then [] # split_on c xs
      else (case split_on c xs of [] \<Rightarrow> [[x]] | w # ws \<Rightarrow> (x # w) # ws))"

fun join :: "'a \<Rightarrow> 'a list list \<Rightarrow> 'a list" where
  "join c [] = []"
| "join c [w] = w"
| "join c (w # v # ws) = w @ c # join c (v # ws)"

lemma split_on_nonempty [simp]: "split_on c s \<noteq> []"
  by (induction s) (auto split: list.splits)

lemma split_on_no_sep: "c \<notin> set s \<Longrightarrow> split_on c s = [s]"
  by (induction s) auto

lemma split_on_append_sep:
  "c \<notin> set w \<Longrightarrow> split_on c (w @ c # s) = w # split_on c s"
  by (induction w) auto

lemma join_split_on [simp]: "join c (split_on c s) = s"
proof (induction s)
  case Nil
  show ?case by simp
next
  case (Cons x s)
  obtain w ws where ws: "split_on c s = w # ws"
    by (cases "split_on c s") auto
  with Cons show ?case by (cases ws) auto
qed

lemma split_on_join:
  "ws \<noteq> [] \<Longrightarrow> \<forall>w \<in> set ws. c \<notin> set w \<Longrightarrow> split_on c (join c ws) = ws"
proof (induction c ws rule: join.induct)
  case (1 c)
  then show ?case by simp
next
  case (2 c w)
  then show ?case by (simp add: split_on_no_sep)
next
  case (3 c w v ws)
  then show ?case by (simp add: split_on_append_sep)
qed

section \<open>The first occurrence of an element\<close>

lemma split_at_first:
  assumes "x \<in> set xs"
  obtains rest where "xs = takeWhile (\<lambda>y. y \<noteq> x) xs @ x # rest"
proof -
  from assms have "dropWhile (\<lambda>y. y \<noteq> x) xs \<noteq> []"
    by (simp add: dropWhile_eq_Nil_conv)
  then have "dropWhile (\<lambda>y. y \<noteq> x) xs = x # tl (dropWhile (\<lambda>y. y \<noteq> x) xs)"
    using hd_dropWhile [of "\<lambda>y. y \<noteq> x" xs] by (cases "dropWhile (\<lambda>y. y \<noteq> x) xs") auto
  then have "xs = takeWhile (\<lambda>y. y \<noteq> x) xs @ x # tl (dropWhile (\<lambda>y. y \<noteq> x) xs)"
    by (metis takeWhile_dropWhile_id)
  then show thesis by (rule that)
qed

section \<open>Lists of optional results\<close>

fun those_all :: "'a option list \<Rightarrow> 'a list option" where
  "those_all [] = Some []"
| "those_all (None # xs) = None"
| "those_all (Some x # xs) = map_option ((#) x) (those_all xs)"

lemma those_all_map_Some [simp]: "those_all (map Some xs) = Some xs"
  by (induction xs) auto

lemma those_all_map: "(\<And>x. x \<in> set xs \<Longrightarrow> f x = Some (g x)) \<Longrightarrow> those_all (map f xs) = Some (map g xs)"
  by (induction xs) auto

end
