(* ===== verification/Py_Module.thy ===== *)
theory Py_Module
  imports MC_Prelude
begin

text \<open>
  The fragment of Python in which the package initialisers of the repository are
  written: module-level statements that are a string expression (the docstring),
  an assignment of a literal, or an import. A module body is a list of such
  statements, transcribed line by line from the source.

  This theory holds the syntax, the values, the exceptions and the interface to a
  module finder, together with the static reading of a body that the contracts
  use: its docstring, the names it binds and the last value it assigns to a
  name. The dynamic meaning of the statements is in theory \<open>Py_Import\<close>.
\<close>

section \<open>Names, values and statements\<close>

type_synonym qualname = "string list"

definition dotted :: "qualname \<Rightarrow> string" where
  "dotted q = join CHR ''.'' q"

definition parse_dotted :: "string \<Rightarrow> qualname" where
  "parse_dotted s = (if s = [] then [] else split_on CHR ''.'' s)"

datatype pyval =
    NoneV
  | StrV string
  | ListV "pyval list"
  | ModuleV qualname
  | OpaqueV string

datatype stmt =
    Expr pyval
  | Assign string pyval
  | Import qualname
  | FromImport nat qualname "string list"
  | FromImportStar nat qualname

definition from_dot_import :: "string \<Rightarrow> stmt" where
  "from_dot_import x = FromImport 1 [] [x]"

type_synonym namespace = "(string, pyval) dict"

section \<open>Exceptions\<close>

text \<open>
  An exception is its class and the arguments that identify it: the module
  that was not found, the name and the module of a failed \<^verbatim>\<open>from ... import\<close>,
  the file name of a failed \<^verbatim>\<open>open\<close>. The wording of the message is not
  modelled; \<open>ImportError_cannot_import_name x m\<close> stands for both wordings of
  Python, \<^verbatim>\<open>cannot import name 'x' from 'm'\<close> and \<^verbatim>\<open>cannot import name 'x'
  from partially initialized module 'm'\<close>.
\<close>

datatype py_error =
    ModuleNotFoundError qualname
  | ImportError_cannot_import_name string qualname
  | ImportError_no_known_parent
  | ImportError_beyond_top_level
  | ValueError_empty_module_name
  | AttributeError qualname string
  | TypeError_not_str
  | KeyError qualname
  | FileNotFoundError string
  | IsADirectoryError string

section \<open>Module specs and finders\<close>

record module_spec =
  is_package :: bool
  locations :: "string list"
  origin :: "string option"
  body :: "stmt list option"

type_synonym finder = "qualname \<Rightarrow> module_spec option"

definition spec_parent :: "qualname \<Rightarrow> module_spec \<Rightarrow> qualname" where
  "spec_parent name sp = (if is_package sp then name else butlast name)"

definition module_from_spec :: "qualname \<Rightarrow> module_spec \<Rightarrow> namespace" where
  "module_from_spec name sp =
     [(''__name__'', StrV (dotted name)),
      (''__doc__'', NoneV),
      (''__package__'', StrV (dotted (spec_parent name sp))),
      (''__loader__'', OpaqueV ''loader''),
      (''__spec__'', OpaqueV ''spec'')]
     @ (if is_package sp then [(''__path__'', ListV (map StrV (locations sp)))] else [])
     @ (case origin sp of
          None \<Rightarrow> (if is_package sp then [(''__file__'', NoneV)] else [])
        | Some f \<Rightarrow> [(''__file__'', StrV f), (''__cached__'', OpaqueV ''pyc'')])
     @ [(''__builtins__'', OpaqueV ''builtins'')]"

definition reserved :: "string \<Rightarrow> bool" where
  "reserved x \<longleftrightarrow> x \<in> set [''__name__'', ''__package__'', ''__path__'', ''__spec__'',
     ''__loader__'', ''__file__'', ''__cached__'', ''__builtins__'']"

definition provides_package :: "finder \<Rightarrow> qualname \<Rightarrow> stmt list \<Rightarrow> bool" where
  "provides_package F name ss \<longleftrightarrow>
     (case F name of None \<Rightarrow> False | Some sp \<Rightarrow> is_package sp \<and> body sp = Some ss)"

lemma provides_packageE:
  assumes "provides_package F name ss"
  obtains sp where "F name = Some sp" and "is_package sp" and "body sp = Some ss"
  using assms by (auto simp: provides_package_def split: option.splits)

lemma module_from_spec_keys:
  "x \<in> set (dict_keys (module_from_spec name sp)) \<Longrightarrow> reserved x \<or> x = ''__doc__''"
  by (auto simp: module_from_spec_def reserved_def split: option.splits if_splits)

lemma module_from_spec_plain [simp]:
  "\<not> reserved x \<Longrightarrow> x \<noteq> ''__doc__'' \<Longrightarrow> dict_get (module_from_spec name sp) x = None"
  using module_from_spec_keys [of x name sp] by (auto simp: map_of_eq_None_iff)

lemma module_from_spec_path [simp]:
  "dict_get (module_from_spec name sp) ''__path__'' =
     (if is_package sp then Some (ListV (map StrV (locations sp))) else None)"
  by (simp add: module_from_spec_def split: option.splits)

lemma module_from_spec_name [simp]:
  "dict_get (module_from_spec name sp) ''__name__'' = Some (StrV (dotted name))"
  by (simp add: module_from_spec_def)

lemma module_from_spec_doc [simp]:
  "dict_get (module_from_spec name sp) ''__doc__'' = Some NoneV"
  by (simp add: module_from_spec_def)

lemma module_from_spec_package [simp]:
  "dict_get (module_from_spec name sp) ''__package__'' = Some (StrV (dotted (spec_parent name sp)))"
  by (simp add: module_from_spec_def)

lemma distinct_module_from_spec [simp]: "distinct (dict_keys (module_from_spec name sp))"
  by (auto simp: module_from_spec_def split: option.splits)

section \<open>Static reading of a module body\<close>

fun get_docstring :: "stmt list \<Rightarrow> string option" where
  "get_docstring (Expr (StrV s) # _) = Some s"
| "get_docstring _ = None"

fun binds :: "stmt \<Rightarrow> string list" where
  "binds (Expr v) = []"
| "binds (Assign x v) = [x]"
| "binds (Import q) = (case q of [] \<Rightarrow> [] | t # _ \<Rightarrow> [t])"
| "binds (FromImport l m xs) = xs"
| "binds (FromImportStar l m) = []"

definition bound_names :: "stmt list \<Rightarrow> string list" where
  "bound_names ss = concat (map binds ss)"

fun assigned :: "string \<Rightarrow> stmt list \<Rightarrow> pyval option" where
  "assigned x [] = None"
| "assigned x (s # ss) =
     (case assigned x ss of
        Some v \<Rightarrow> Some v
      | None \<Rightarrow>
          (if x \<in> set (bound_names ss) then None
           else (case s of Assign y v \<Rightarrow> (if y = x then Some v else None) | _ \<Rightarrow> None)))"

fun str_items :: "pyval \<Rightarrow> string list option" where
  "str_items (ListV vs) = those_all (map (\<lambda>v. case v of StrV s \<Rightarrow> Some s | _ \<Rightarrow> None) vs)"
| "str_items (StrV s) = Some (map (\<lambda>c. [c]) s)"
| "str_items _ = None"

lemma bound_names_Nil [simp]: "bound_names [] = []"
  by (simp add: bound_names_def)

lemma bound_names_Cons [simp]: "bound_names (s # ss) = binds s @ bound_names ss"
  by (simp add: bound_names_def)

lemma bound_names_append [simp]: "bound_names (ss @ ts) = bound_names ss @ bound_names ts"
  by (simp add: bound_names_def)

lemma bound_names_map_from_dot_import [simp]: "bound_names (map from_dot_import ns) = ns"
  by (induction ns) (auto simp: from_dot_import_def)

lemma str_items_map_StrV [simp]: "str_items (ListV (map StrV ns)) = Some ns"
  by (simp add: comp_def those_all_map)

lemma assigned_bound: "assigned x ss = Some v \<Longrightarrow> x \<in> set (bound_names ss)"
  by (induction ss) (auto split: option.splits if_splits stmt.splits)

lemma assigned_unbound: "x \<notin> set (bound_names ss) \<Longrightarrow> assigned x ss = None"
  using assigned_bound by (cases "assigned x ss") auto

lemma assigned_append:
  "assigned x (ss @ ts) =
     (case assigned x ts of
        Some v \<Rightarrow> Some v
      | None \<Rightarrow> (if x \<in> set (bound_names ts) then None else assigned x ss))"
  by (induction ss) (auto split: option.splits simp: assigned_unbound)

lemma assigned_map_from_dot_import [simp]: "assigned x (map from_dot_import ns) = None"
  by (induction ns) (auto simp: from_dot_import_def)

end
