(* ===== verification/Repo_Tree.thy ===== *)
theory Repo_Tree
  imports Py_Module
begin

text \<open>
  The files of a checkout, as a version-control system records them: a list of
  paths with their contents. A directory exists where a file lies below it.
  \<open>path_finder\<close> is the view that the import system's path-based finder has of
  such a tree from one entry of \<^verbatim>\<open>sys.path\<close>: a directory with an
  \<^verbatim>\<open>__init__.py\<close> is a regular package, a file \<^verbatim>\<open>name.py\<close> is a module, a
  directory without initialiser is a namespace package.
\<close>

type_synonym path = "string list"

datatype content = PySource "stmt list" | PyOpaque | Text string

type_synonym repo = "(path, content) dict"

definition fs_path :: "path \<Rightarrow> string" where
  "fs_path p = join CHR ''/'' p"

definition is_file :: "repo \<Rightarrow> path \<Rightarrow> bool" where
  "is_file r p \<longleftrightarrow> map_of r p \<noteq> None"

definition below :: "path \<Rightarrow> path \<Rightarrow> bool" where
  "below d p \<longleftrightarrow> length d < length p \<and> take (length d) p = d"

definition is_dir :: "repo \<Rightarrow> path \<Rightarrow> bool" where
  "is_dir r d \<longleftrightarrow> list_ex (below d) (dict_keys r)"

definition listdir :: "repo \<Rightarrow> path \<Rightarrow> string list" where
  "listdir r d = remdups (map (\<lambda>p. p ! length d) (filter (below d) (dict_keys r)))"

fun source_of :: "content \<Rightarrow> stmt list option" where
  "source_of (PySource ss) = Some ss"
| "source_of _ = None"

definition path_finder :: "repo \<Rightarrow> path \<Rightarrow> finder" where
  "path_finder r root name =
     (if name = [] then None
      else
        (let dir = root @ name;
             init = dir @ [''__init__.py''];
             file = root @ butlast name @ [last name @ ''.py'']
         in case map_of r init of
              Some c \<Rightarrow>
                Some \<lparr>is_package = True, locations = [fs_path dir],
                      origin = Some (fs_path init), body = source_of c\<rparr>
            | None \<Rightarrow>
                (case map_of r file of
                   Some c \<Rightarrow>
                     Some \<lparr>is_package = False, locations = [],
                           origin = Some (fs_path file), body = source_of c\<rparr>
                 | None \<Rightarrow>
                     (if is_dir r dir
                      then Some \<lparr>is_package = True, locations = [fs_path dir],
                                 origin = None, body = Some []\<rparr>
                      else None))))"

lemma below_append [simp]: "below d (d @ p) \<longleftrightarrow> p \<noteq> []"
  by (auto simp: below_def)

lemma below_irrefl [simp]: "\<not> below d d"
  by (simp add: below_def)

lemma below_trans:
  assumes "below a b" and "below b c"
  shows "below a c"
proof -
  from assms have len: "length a < length b" "length b < length c"
    and ab: "take (length a) b = a" and bc: "take (length b) c = b"
    by (simp_all add: below_def)
  from len have "take (length a) c = take (length a) (take (length b) c)"
    by (simp add: min_def)
  also have "\<dots> = a" by (simp only: bc ab)
  finally show ?thesis using len by (simp add: below_def)
qed

lemma is_dir_iff: "is_dir r d \<longleftrightarrow> (\<exists>p \<in> set (dict_keys r). below d p)"
  by (simp add: is_dir_def list_ex_iff)

lemma listdir_iff:
  "n \<in> set (listdir r d) \<longleftrightarrow> (\<exists>p \<in> set (dict_keys r). below d p \<and> p ! length d = n)"
  by (auto simp: listdir_def)

lemma is_file_parent_dir: "is_file r (d @ [n]) \<Longrightarrow> is_dir r d"
proof -
  assume "is_file r (d @ [n])"
  then have "d @ [n] \<in> set (dict_keys r)"
    by (auto simp: is_file_def map_of_eq_None_iff)
  moreover have "below d (d @ [n])" by simp
  ultimately show ?thesis unfolding is_dir_iff by blast
qed

text \<open>
  A tree is well formed when no path is empty and no path has an empty
  component, as in every file system.
\<close>

definition wf_tree :: "repo \<Rightarrow> bool" where
  "wf_tree r \<longleftrightarrow> list_all (\<lambda>p. p \<noteq> [] \<and> [] \<notin> set p) (dict_keys r)"

lemma wf_tree_file: "wf_tree r \<Longrightarrow> is_file r p \<Longrightarrow> p \<noteq> [] \<and> [] \<notin> set p"
  by (auto simp: wf_tree_def is_file_def list_all_iff map_of_eq_None_iff)

end
