(* ===== verification/Pkg_Sources.thy ===== *)
theory Pkg_Sources
  imports Repo_Tree
begin

text \<open>
  The three package initialisers of the repository, statement by statement, and
  the list of files of the checkout.

  \<^item> \<open>src_init\<close> is \<^verbatim>\<open>src/__init__.py\<close>: docstring, \<^verbatim>\<open>__version__\<close>,
    \<^verbatim>\<open>__author__\<close>, \<^verbatim>\<open>__email__\<close>, six sibling imports, \<^verbatim>\<open>__all__\<close>.
  \<^item> \<open>models_init\<close> is \<^verbatim>\<open>src/models/__init__.py\<close>: docstring and an empty
    \<^verbatim>\<open>__all__\<close>.
  \<^item> \<open>pricing_init\<close> is \<^verbatim>\<open>src/pricing/__init__.py\<close>: docstring, five sibling
    imports, \<^verbatim>\<open>__all__\<close>.

  A docstring is the list of its lines joined by line feeds; the triple-quoted
  literals of the sources end with a line feed, hence the final empty line.
  The letter i with acute accent in the author's name is the code point 237.
\<close>

section \<open>src/__init__.py\<close>

definition src_doc :: string where
  "src_doc = join (CHR 0x0A)
     [''Monte Carlo Option Pricing Lab'',
      '''',
      ''A professional quantitative finance library for option pricing using Monte Carlo simulations.'',
      '''',
      ''Main Components:'',
      ''    - pricing: Core pricing engines for European, American, and exotic options'',
      ''    - models: Stochastic models (GBM, jump-diffusion, volatility surfaces)'',
      ''    - variance_reduction: Advanced techniques (antithetic, control variates, stratified sampling)'',
      ''    - portfolio: Portfolio risk analysis (VaR, CVaR, stress testing)'',
      ''    - data: Market data utilities and calibration'',
      ''    - utils: Helper functions and metrics'',
      '''']"

definition src_version :: string where
  "src_version = ''0.1.0''"

definition src_author :: string where
  "src_author = ''Lorenzo Mart'' @ [CHR 0xED] @ ''nez Malvar''"

definition src_email :: string where
  "src_email = ''lorenlorenloren@gmail.com''"

definition src_imports :: "string list" where
  "src_imports = [''pricing'', ''models'', ''variance_reduction'', ''portfolio'', ''data'', ''utils'']"

definition src_all :: "string list" where
  "src_all = [''pricing'', ''models'', ''variance_reduction'', ''portfolio'', ''data'', ''utils'']"

definition src_init :: "stmt list" where
  "src_init =
     [Expr (StrV src_doc),
      Assign ''__version__'' (StrV src_version),
      Assign ''__author__'' (StrV src_author),
      Assign ''__email__'' (StrV src_email)]
     @ map from_dot_import src_imports
     @ [Assign ''__all__'' (ListV (map StrV src_all))]"

section \<open>src/models/__init__.py\<close>

definition models_doc :: string where
  "models_doc = join (CHR 0x0A)
     [''Stochastic models for option pricing.'',
      '''',
      ''Contains: GBM, jump-diffusion, volatility surfaces.'',
      '''']"

definition models_all :: "string list" where
  "models_all = []"

definition models_init :: "stmt list" where
  "models_init =
     [Expr (StrV models_doc),
      Assign ''__all__'' (ListV (map StrV models_all))]"

section \<open>src/pricing/__init__.py\<close>

definition pricing_doc :: string where
  "pricing_doc = join (CHR 0x0A)
     [''Option pricing engines module.'',
      '''',
      ''Submodules:'',
      ''    - european: European call and put options'',
      ''    - american: American options with LSM algorithm'',
      ''    - exotic: Exotic options (Asian, Barrier, Basket)'',
      ''    - engine: Base Monte Carlo simulation engine'',
      ''    - greeks: Greeks calculation (Delta, Gamma, Vega, Theta)'',
      '''']"

definition pricing_imports :: "string list" where
  "pricing_imports = [''european'', ''american'', ''exotic'', ''engine'', ''greeks'']"

definition pricing_all :: "string list" where
  "pricing_all = [''european'', ''american'', ''exotic'', ''engine'', ''greeks'']"

definition pricing_init :: "stmt list" where
  "pricing_init =
     [Expr (StrV pricing_doc)]
     @ map from_dot_import pricing_imports
     @ [Assign ''__all__'' (ListV (map StrV pricing_all))]"

section \<open>The checkout\<close>

definition repo_files :: repo where
  "repo_files =
     [([''setup.py''], PyOpaque),
      ([''src'', ''__init__.py''], PySource src_init),
      ([''src'', ''models'', ''__init__.py''], PySource models_init),
      ([''src'', ''pricing'', ''__init__.py''], PySource pricing_init)]"

lemmas src_init_defs [src_defs] =
  src_init_def src_doc_def src_version_def src_author_def src_email_def
  src_imports_def src_all_def

lemmas models_init_defs [src_defs] = models_init_def models_doc_def models_all_def

lemmas pricing_init_defs [src_defs] =
  pricing_init_def pricing_doc_def pricing_imports_def pricing_all_def

end
