(* ===== verification/Py_Import.thy ===== *)
theory Py_Import
  imports Py_Module
begin

text \<open>
  What the statements of \<open>Py_Module\<close> do when CPython executes them: the import
  machinery of \<^verbatim>\<open>importlib._bootstrap\<close> (\<^verbatim>\<open>__import__\<close>, \<^verbatim>\<open>_gcd_import\<close>,
  \<^verbatim>\<open>_find_and_load_unlocked\<close>, \<^verbatim>\<open>_load_unlocked\<close>, \<^verbatim>\<open>_handle_fromlist\<close>) and the
  interpreter's \<^verbatim>\<open>IMPORT_FROM\<close> and \<^verbatim>\<open>import *\<close>, over the state \<^verbatim>\<open>sys.modules\<close>.

  A module object is identified with its qualified name, and its namespace is
  the entry of that name in \<open>sys_modules\<close>. The functions that run a body take
  the importer for nested imports as an argument; \<open>import_module\<close> ties the knot
  with a fuel counter that bounds the nesting depth of imports.
\<close>

section \<open>State and outcomes\<close>

type_synonym sys_modules = "(qualname, namespace) dict"

datatype stuck = OutOfFuel | OutsideFragment qualname

datatype outcome = Done sys_modules | Raised py_error sys_modules | Stuck stuck

type_synonym importer = "qualname \<Rightarrow> sys_modules \<Rightarrow> outcome"

definition getattr :: "sys_modules \<Rightarrow> qualname \<Rightarrow> string \<Rightarrow> pyval option" where
  "getattr st m x = (case map_of st m of None \<Rightarrow> None | Some ns \<Rightarrow> map_of ns x)"

definition hasattr :: "sys_modules \<Rightarrow> qualname \<Rightarrow> string \<Rightarrow> bool" where
  "hasattr st m x \<longleftrightarrow> getattr st m x \<noteq> None"

definition setattr :: "qualname \<Rightarrow> string \<Rightarrow> pyval \<Rightarrow> sys_modules \<Rightarrow> sys_modules" where
  "setattr m x v st =
     (case map_of st m of None \<Rightarrow> st | Some ns \<Rightarrow> dict_set m (dict_set x v ns) st)"

lemma dict_has_setattr [simp]: "dict_has (setattr m x v st) k \<longleftrightarrow> dict_has st k"
  by (auto simp: setattr_def dict_has_def split: option.splits)

lemma getattr_dict_set [simp]:
  "getattr (dict_set m ns st) m' y = (if m' = m then dict_get ns y else getattr st m' y)"
  by (simp add: getattr_def)

lemma getattr_dict_del [simp]:
  "getattr (dict_del m st) m' y = (if m' = m then None else getattr st m' y)"
  by (simp add: getattr_def)

lemma getattr_move_to_end [simp]: "getattr (move_to_end m st) m' y = getattr st m' y"
  by (simp add: getattr_def)

lemma getattr_setattr [simp]:
  "getattr (setattr m x v st) m' y =
     (if m' = m \<and> y = x \<and> dict_has st m then Some v else getattr st m' y)"
  by (auto simp: getattr_def setattr_def dict_has_def split: option.splits)

lemma getattr_absent [simp]: "\<not> dict_has st m \<Longrightarrow> getattr st m x = None"
  by (simp add: getattr_def dict_has_def)

lemma dict_del_setattr_same [simp]: "dict_del m (setattr m x v st) = dict_del m st"
  by (simp add: setattr_def split: option.splits)

lemma dict_del_setattr_other:
  "m \<noteq> m' \<Longrightarrow> dict_del m (setattr m' x v st) = setattr m' x v (dict_del m st)"
  by (simp add: setattr_def dict_del_dict_set_other split: option.splits)

lemma setattr_absent [simp]: "\<not> dict_has st m \<Longrightarrow> setattr m x v st = st"
  by (simp add: setattr_def dict_has_def)

lemma setattr_same: "getattr st m x = Some v \<Longrightarrow> setattr m x v st = st"
  by (auto simp: getattr_def setattr_def update_triv split: option.splits)

lemma distinct_setattr [simp]:
  "distinct (dict_keys st) \<Longrightarrow> distinct (dict_keys (setattr m x v st))"
  by (simp add: setattr_def split: option.splits)

section \<open>Resolving a relative name\<close>

definition resolve_name :: "qualname \<Rightarrow> nat \<Rightarrow> qualname \<Rightarrow> py_error + qualname" where
  "resolve_name pkg level m =
     (if level = 0 then (if m = [] then Inl ValueError_empty_module_name else Inr m)
      else if pkg = [] then Inl ImportError_no_known_parent
      else if length pkg < level then Inl ImportError_beyond_top_level
      else Inr (take (length pkg - (level - 1)) pkg @ m))"

section \<open>The from-list of an import\<close>

fun handle_fromlist :: "importer \<Rightarrow> qualname \<Rightarrow> string list \<Rightarrow> sys_modules \<Rightarrow> outcome" where
  "handle_fromlist imp base [] st = Done st"
| "handle_fromlist imp base (x # xs) st =
     (if hasattr st base x then handle_fromlist imp base xs st
      else (case imp (base @ [x]) st of
              Done st' \<Rightarrow> handle_fromlist imp base xs st'
            | Raised e st' \<Rightarrow>
                (if e = ModuleNotFoundError (base @ [x]) then handle_fromlist imp base xs st'
                 else Raised e st')
            | Stuck r \<Rightarrow> Stuck r))"

definition import_from :: "sys_modules \<Rightarrow> qualname \<Rightarrow> string \<Rightarrow> pyval option" where
  "import_from st base x =
     (case getattr st base x of
        Some v \<Rightarrow> Some v
      | None \<Rightarrow> (if dict_has st (base @ [x]) then Some (ModuleV (base @ [x])) else None))"

fun store_imports :: "qualname \<Rightarrow> qualname \<Rightarrow> string list \<Rightarrow> sys_modules \<Rightarrow> outcome" where
  "store_imports cur base [] st = Done st"
| "store_imports cur base (x # xs) st =
     (if reserved x then Stuck (OutsideFragment cur)
      else (case import_from st base x of
              None \<Rightarrow> Raised (ImportError_cannot_import_name x base) st
            | Some v \<Rightarrow> store_imports cur base xs (setattr cur x v st)))"

fun store_all :: "qualname \<Rightarrow> qualname \<Rightarrow> string list \<Rightarrow> sys_modules \<Rightarrow> outcome" where
  "store_all cur base [] st = Done st"
| "store_all cur base (x # xs) st =
     (if reserved x then Stuck (OutsideFragment cur)
      else (case getattr st base x of
              None \<Rightarrow> Raised (AttributeError base x) st
            | Some v \<Rightarrow> store_all cur base xs (setattr cur x v st)))"

definition public_names :: "sys_modules \<Rightarrow> qualname \<Rightarrow> string list" where
  "public_names st base =
     (case map_of st base of
        None \<Rightarrow> []
      | Some ns \<Rightarrow> filter (\<lambda>x. take 1 x \<noteq> ''_'') (dict_keys ns))"

section \<open>Statements\<close>

definition exec_from :: "importer \<Rightarrow> qualname \<Rightarrow> qualname \<Rightarrow> string list \<Rightarrow> sys_modules \<Rightarrow> outcome" where
  "exec_from imp cur base xs st =
     (case imp base st of
        Done st1 \<Rightarrow>
          (case (if hasattr st1 base ''__path__'' then handle_fromlist imp base xs st1
                 else Done st1) of
             Done st2 \<Rightarrow> store_imports cur base xs st2
           | other \<Rightarrow> other)
      | other \<Rightarrow> other)"

definition exec_star :: "importer \<Rightarrow> qualname \<Rightarrow> qualname \<Rightarrow> sys_modules \<Rightarrow> outcome" where
  "exec_star imp cur base st =
     (case imp base st of
        Done st1 \<Rightarrow>
          (case getattr st1 base ''__all__'' of
             None \<Rightarrow> store_all cur base (public_names st1 base) st1
           | Some v \<Rightarrow>
               (case str_items v of
                  None \<Rightarrow> Raised TypeError_not_str st1
                | Some names \<Rightarrow>
                    (case (if hasattr st1 base ''__path__''
                           then handle_fromlist imp base names st1 else Done st1) of
                       Done st2 \<Rightarrow> store_all cur base names st2
                     | other \<Rightarrow> other)))
      | other \<Rightarrow> other)"

fun exec_stmt :: "importer \<Rightarrow> qualname \<Rightarrow> qualname \<Rightarrow> stmt \<Rightarrow> sys_modules \<Rightarrow> outcome" where
  "exec_stmt imp cur pkg (Expr v) st = Done st"
| "exec_stmt imp cur pkg (Assign x v) st =
     (if reserved x then Stuck (OutsideFragment cur) else Done (setattr cur x v st))"
| "exec_stmt imp cur pkg (Import q) st =
     (case q of
        [] \<Rightarrow> Raised ValueError_empty_module_name st
      | t # _ \<Rightarrow>
          (case imp q st of
             Done st1 \<Rightarrow>
               (case imp [t] st1 of
                  Done st2 \<Rightarrow> Done (setattr cur t (ModuleV [t]) st2)
                | other \<Rightarrow> other)
           | other \<Rightarrow> other))"
| "exec_stmt imp cur pkg (FromImport l m xs) st =
     (case resolve_name pkg l m of
        Inl e \<Rightarrow> Raised e st
      | Inr base \<Rightarrow> exec_from imp cur base xs st)"
| "exec_stmt imp cur pkg (FromImportStar l m) st =
     (case resolve_name pkg l m of
        Inl e \<Rightarrow> Raised e st
      | Inr base \<Rightarrow> exec_star imp cur base st)"

fun exec_stmts :: "importer \<Rightarrow> qualname \<Rightarrow> qualname \<Rightarrow> stmt list \<Rightarrow> sys_modules \<Rightarrow> outcome" where
  "exec_stmts imp cur pkg [] st = Done st"
| "exec_stmts imp cur pkg (s # ss) st =
     (case exec_stmt imp cur pkg s st of
        Done st' \<Rightarrow> exec_stmts imp cur pkg ss st'
      | other \<Rightarrow> other)"

section \<open>Loading a module\<close>

definition init_module :: "qualname \<Rightarrow> module_spec \<Rightarrow> stmt list \<Rightarrow> sys_modules \<Rightarrow> sys_modules" where
  "init_module name sp ss st =
     (case get_docstring ss of
        None \<Rightarrow> dict_set name (module_from_spec name sp) st
      | Some d \<Rightarrow> setattr name ''__doc__'' (StrV d) (dict_set name (module_from_spec name sp) st))"

definition load_unlocked :: "importer \<Rightarrow> qualname \<Rightarrow> module_spec \<Rightarrow> sys_modules \<Rightarrow> outcome" where
  "load_unlocked imp name sp st =
     (case body sp of
        None \<Rightarrow> Stuck (OutsideFragment name)
      | Some ss \<Rightarrow>
          (case exec_stmts imp name (spec_parent name sp) ss (init_module name sp ss st) of
             Done st2 \<Rightarrow>
               (if dict_has st2 name then Done (move_to_end name st2)
                else Raised (KeyError name) st2)
           | Raised e st2 \<Rightarrow> Raised e (dict_del name st2)
           | Stuck r \<Rightarrow> Stuck r))"

definition find_and_load :: "importer \<Rightarrow> finder \<Rightarrow> qualname \<Rightarrow> sys_modules \<Rightarrow> outcome" where
  "find_and_load imp F name st =
     (if name = [] then Raised ValueError_empty_module_name st
      else if dict_has st name then Done st
      else if butlast name = [] then
        (case F name of
           None \<Rightarrow> Raised (ModuleNotFoundError name) st
         | Some sp \<Rightarrow> load_unlocked imp name sp st)
      else
        (case (if dict_has st (butlast name) then Done st else imp (butlast name) st) of
           Done st1 \<Rightarrow>
             (if dict_has st1 name then Done st1
              else if \<not> dict_has st1 (butlast name) then Raised (KeyError (butlast name)) st1
              else if \<not> hasattr st1 (butlast name) ''__path__''
                then Raised (ModuleNotFoundError name) st1
              else (case F name of
                      None \<Rightarrow> Raised (ModuleNotFoundError name) st1
                    | Some sp \<Rightarrow>
                        (case load_unlocked imp name sp st1 of
                           Done st2 \<Rightarrow>
                             Done (setattr (butlast name) (last name) (ModuleV name) st2)
                         | other \<Rightarrow> other)))
         | other \<Rightarrow> other))"

primrec import_module :: "nat \<Rightarrow> finder \<Rightarrow> importer" where
  "import_module 0 F = (\<lambda>name st. Stuck OutOfFuel)"
| "import_module (Suc n) F = find_and_load (import_module n F) F"

definition main_namespace :: namespace where
  "main_namespace =
     [(''__name__'', StrV ''__main__''), (''__doc__'', NoneV), (''__package__'', NoneV),
      (''__loader__'', OpaqueV ''loader''), (''__spec__'', NoneV),
      (''__builtins__'', OpaqueV ''builtins'')]"

definition run_main :: "nat \<Rightarrow> finder \<Rightarrow> stmt list \<Rightarrow> sys_modules \<Rightarrow> outcome" where
  "run_main n F ss st =
     exec_stmts (import_module n F) [''__main__''] [] ss (dict_set [''__main__''] main_namespace st)"

section \<open>Sequences and bodies without imports\<close>

fun plain_stmt :: "stmt \<Rightarrow> bool" where
  "plain_stmt (Expr v) = True"
| "plain_stmt (Assign x v) = (\<not> reserved x)"
| "plain_stmt _ = False"

fun assign_all :: "qualname \<Rightarrow> stmt list \<Rightarrow> sys_modules \<Rightarrow> sys_modules" where
  "assign_all cur [] st = st"
| "assign_all cur (Assign x v # ss) st = assign_all cur ss (setattr cur x v st)"
| "assign_all cur (_ # ss) st = assign_all cur ss st"

lemma plain_not_reserved:
  "list_all plain_stmt ss \<Longrightarrow> y \<in> set (bound_names ss) \<Longrightarrow> \<not> reserved y"
  by (induction ss) (auto elim: plain_stmt.elims)

lemma exec_stmts_append:
  "exec_stmts imp cur pkg (ss @ ts) st =
     (case exec_stmts imp cur pkg ss st of
        Done st' \<Rightarrow> exec_stmts imp cur pkg ts st'
      | other \<Rightarrow> other)"
  by (induction ss arbitrary: st) (auto split: outcome.splits)

lemma exec_stmts_plain:
  "list_all plain_stmt ss \<Longrightarrow> exec_stmts imp cur pkg ss st = Done (assign_all cur ss st)"
  by (induction cur ss st rule: assign_all.induct) auto

lemma dict_has_assign_all [simp]: "dict_has (assign_all cur ss st) k \<longleftrightarrow> dict_has st k"
  by (induction cur ss st rule: assign_all.induct) auto

lemma getattr_assign_all_other [simp]:
  "m \<noteq> cur \<Longrightarrow> getattr (assign_all cur ss st) m y = getattr st m y"
  by (induction cur ss st rule: assign_all.induct) auto

lemma getattr_assign_all_unbound:
  "y \<notin> set (bound_names ss) \<Longrightarrow> getattr (assign_all cur ss st) m y = getattr st m y"
  by (induction cur ss st rule: assign_all.induct) auto

lemma distinct_assign_all [simp]:
  "distinct (dict_keys st) \<Longrightarrow> distinct (dict_keys (assign_all cur ss st))"
  by (induction cur ss st rule: assign_all.induct) auto

section \<open>Characteristic equations of the importer\<close>

lemma find_and_load_loaded [simp]:
  "name \<noteq> [] \<Longrightarrow> dict_has st name \<Longrightarrow> find_and_load imp F name st = Done st"
  by (simp add: find_and_load_def)

lemma import_module_loaded [simp]:
  "name \<noteq> [] \<Longrightarrow> dict_has st name \<Longrightarrow> import_module (Suc n) F name st = Done st"
  by simp

lemma import_module_empty [simp]:
  "import_module (Suc n) F [] st = Raised ValueError_empty_module_name st"
  by (simp add: find_and_load_def)

lemma find_and_load_missing:
  assumes "name \<noteq> []" and "\<not> dict_has st name" and "F name = None"
    and "butlast name = [] \<or> (dict_has st (butlast name) \<and> hasattr st (butlast name) ''__path__'')"
  shows "find_and_load imp F name st = Raised (ModuleNotFoundError name) st"
  using assms by (auto simp: find_and_load_def)

lemma dict_has_init_module [simp]:
  "dict_has (init_module name sp ss st) k \<longleftrightarrow> k = name \<or> dict_has st k"
  by (simp add: init_module_def split: option.splits)

lemma getattr_init_module_other [simp]:
  "m \<noteq> name \<Longrightarrow> getattr (init_module name sp ss st) m y = getattr st m y"
  by (simp add: init_module_def split: option.splits)

lemma getattr_init_module_plain [simp]:
  "\<not> reserved y \<Longrightarrow> y \<noteq> ''__doc__'' \<Longrightarrow> getattr (init_module name sp ss st) name y = None"
  by (simp add: init_module_def split: option.splits)

lemma getattr_init_module_path [simp]:
  "getattr (init_module name sp ss st) name ''__path__'' =
     (if is_package sp then Some (ListV (map StrV (locations sp))) else None)"
  by (simp add: init_module_def split: option.splits)

lemma getattr_init_module_doc [simp]:
  "getattr (init_module name sp ss st) name ''__doc__'' =
     Some (case get_docstring ss of None \<Rightarrow> NoneV | Some d \<Rightarrow> StrV d)"
  by (simp add: init_module_def split: option.splits)

lemma dict_del_init_module [simp]: "dict_del name (init_module name sp ss st) = dict_del name st"
  by (simp add: init_module_def split: option.splits)

lemma distinct_init_module [simp]:
  "distinct (dict_keys st) \<Longrightarrow> distinct (dict_keys (init_module name sp ss st))"
  by (simp add: init_module_def split: option.splits)

lemma load_unlocked_plain:
  assumes "body sp = Some ss" and "list_all plain_stmt ss"
  shows "load_unlocked imp name sp st =
    Done (move_to_end name (assign_all name ss (init_module name sp ss st)))"
  using assms by (simp add: load_unlocked_def exec_stmts_plain)

lemma dict_del_assign_all [simp]: "dict_del name (assign_all name ss st) = dict_del name st"
  by (induction name ss st rule: assign_all.induct) (simp_all add: dict_del_setattr_same)

lemma load_unlocked_raises:
  assumes "body sp = Some (pre @ ss)" and "list_all plain_stmt pre"
    and "exec_stmts imp name (spec_parent name sp) ss
           (assign_all name pre (init_module name sp (pre @ ss) st)) = Raised e st'"
  shows "load_unlocked imp name sp st = Raised e (dict_del name st')"
  using assms by (simp add: load_unlocked_def exec_stmts_append exec_stmts_plain)

lemma find_and_load_top:
  assumes "name \<noteq> []" and "butlast name = []" and "\<not> dict_has st name" and "F name = Some sp"
  shows "find_and_load imp F name st = load_unlocked imp name sp st"
  using assms by (simp add: find_and_load_def)

lemma find_and_load_child_raises:
  assumes "butlast name \<noteq> []" and "\<not> dict_has st name" and "dict_has st (butlast name)"
    and "hasattr st (butlast name) ''__path__''" and "F name = Some sp"
    and "load_unlocked imp name sp st = Raised e st'"
  shows "find_and_load imp F name st = Raised e st'"
  using assms by (auto simp: find_and_load_def)

lemma find_and_load_parent_raises:
  assumes "butlast name \<noteq> []" and "\<not> dict_has st name" and "\<not> dict_has st (butlast name)"
    and "imp (butlast name) st = Raised e st'"
  shows "find_and_load imp F name st = Raised e st'"
  using assms by (auto simp: find_and_load_def)

end
