(* ===== verification/Py_Contracts.thy ===== *)
theory Py_Contracts
  imports Py_Import "HOL-Library.Sublist"
begin

text \<open>
  Contracts for importing: what a successful import of a module promises about
  \<^verbatim>\<open>sys.modules\<close>, and the rules that compose such promises for a package
  whose initialiser imports its submodules one by one, the shape of the
  initialisers of the repository.

  \<open>loads imp name Q\<close> reads: from every state in which nothing at or below
  \<open>name\<close> is registered (and the parent, if any, is a registered package),
  \<open>imp name\<close> succeeds; it registers \<open>name\<close>, binds it in its parent, registers
  nothing outside the subtree of \<open>name\<close>, changes no other attribute of a module
  outside that subtree, and establishes \<open>Q\<close>.

  The second half of the theory is the failure side: \<open>fails_cleanly imp name e\<close>
  reads that the import of \<open>name\<close> raises \<open>e\<close> and restores the table, and the
  rules \<open>load_unlocked_first_raises\<close> and \<open>package_raises_after\<close> say what a
  package raises and what it leaves registered (\<open>orphans\<close>) when one of the
  imports of its initialiser fails.
\<close>

section \<open>Frames\<close>

definition untouched :: "qualname \<Rightarrow> sys_modules \<Rightarrow> bool" where
  "untouched q st \<longleftrightarrow> (\<forall>k. prefix q k \<longrightarrow> \<not> dict_has st k)"

definition same_outside :: "qualname \<Rightarrow> sys_modules \<Rightarrow> sys_modules \<Rightarrow> bool" where
  "same_outside name st st' \<longleftrightarrow>
     (\<forall>k. dict_has st k \<longrightarrow> dict_has st' k) \<and>
     (\<forall>k. dict_has st' k \<longrightarrow> dict_has st k \<or> prefix name k) \<and>
     (\<forall>m y. \<not> prefix name m \<longrightarrow> \<not> (m = butlast name \<and> y = last name) \<longrightarrow>
        getattr st' m y = getattr st m y)"

definition mod_pre :: "qualname \<Rightarrow> sys_modules \<Rightarrow> bool" where
  "mod_pre name st \<longleftrightarrow>
     untouched name st \<and>
     (butlast name \<noteq> [] \<longrightarrow>
        dict_has st (butlast name) \<and> hasattr st (butlast name) ''__path__'')"

definition mod_post :: "qualname \<Rightarrow> sys_modules \<Rightarrow> sys_modules \<Rightarrow> bool" where
  "mod_post name st st' \<longleftrightarrow>
     same_outside name st st' \<and> dict_has st' name \<and>
     (butlast name \<noteq> [] \<longrightarrow> getattr st' (butlast name) (last name) = Some (ModuleV name))"

definition loads :: "importer \<Rightarrow> qualname \<Rightarrow> (sys_modules \<Rightarrow> bool) \<Rightarrow> bool" where
  "loads imp name Q \<longleftrightarrow>
     name \<noteq> [] \<and>
     (\<forall>st. mod_pre name st \<longrightarrow> (\<exists>st'. imp name st = Done st' \<and> mod_post name st st' \<and> Q st'))"

definition local_to :: "qualname \<Rightarrow> (sys_modules \<Rightarrow> bool) \<Rightarrow> bool" where
  "local_to name Q \<longleftrightarrow>
     (\<forall>st st'. Q st \<longrightarrow>
        (\<forall>k. prefix name k \<longrightarrow>
           (dict_has st' k \<longleftrightarrow> dict_has st k) \<and> (\<forall>y. getattr st' k y = getattr st k y))
        \<longrightarrow> Q st')"

definition idempotent :: "importer \<Rightarrow> bool" where
  "idempotent imp \<longleftrightarrow> (\<forall>name st. name \<noteq> [] \<longrightarrow> dict_has st name \<longrightarrow> imp name st = Done st)"

lemma loadsE:
  assumes "loads imp name Q" and "mod_pre name st"
  obtains st' where "imp name st = Done st'" and "mod_post name st st'" and "Q st'"
  using assms unfolding loads_def by blast

lemma loads_weaken: "loads imp name Q \<Longrightarrow> (\<And>st. Q st \<Longrightarrow> R st) \<Longrightarrow> loads imp name R"
  unfolding loads_def by blast

lemma idempotent_find_and_load [simp]: "idempotent (find_and_load imp F)"
  by (simp add: idempotent_def)

lemma idempotent_import_module [simp]: "idempotent (import_module (Suc n) F)"
  by simp

lemma untouched_self: "untouched q st \<Longrightarrow> \<not> dict_has st q"
  by (simp add: untouched_def)

lemma untouched_below: "untouched q st \<Longrightarrow> prefix q k \<Longrightarrow> untouched k st"
  unfolding untouched_def by (meson prefix_order.trans)

lemma same_outside_refl [simp]: "same_outside name st st"
  by (simp add: same_outside_def)

lemma same_outside_trans:
  "same_outside name st st' \<Longrightarrow> same_outside name st' st'' \<Longrightarrow> same_outside name st st''"
  unfolding same_outside_def by metis


lemma same_outside_elsewhere:
  "same_outside name st st' \<Longrightarrow> \<not> prefix name m \<Longrightarrow> m \<noteq> butlast name
     \<Longrightarrow> getattr st' m y = getattr st m y"
  by (simp add: same_outside_def)

lemma same_outside_grow: "same_outside name st st' \<Longrightarrow> dict_has st k \<Longrightarrow> dict_has st' k"
  by (simp add: same_outside_def)

lemma untouched_dict_set: "untouched q st \<Longrightarrow> \<not> prefix q k \<Longrightarrow> untouched q (dict_set k v st)"
  by (auto simp: untouched_def)

lemma untouched_empty [simp]: "untouched q []"
  by (simp add: untouched_def)

lemma siblings_disjoint: "prefix (c @ [x]) k \<Longrightarrow> prefix (c @ [y]) k \<Longrightarrow> x = y"
  by (auto simp: prefix_def)

lemma not_prefix_snoc_self [simp]: "\<not> prefix (c @ [x]) c"
  by (auto simp: prefix_def)

lemma local_to_True [simp]: "local_to name (\<lambda>_. True)"
  by (simp add: local_to_def)

lemma local_to_conj: "local_to name P \<Longrightarrow> local_to name Q \<Longrightarrow> local_to name (\<lambda>st. P st \<and> Q st)"
  unfolding local_to_def by blast

lemma local_to_getattr: "prefix name m \<Longrightarrow> local_to name (\<lambda>st. getattr st m y = v)"
  by (simp add: local_to_def)

lemma local_to_dict_has: "prefix name m \<Longrightarrow> local_to name (\<lambda>st. dict_has st m)"
  by (simp add: local_to_def)

lemma local_to_below: "local_to k Q \<Longrightarrow> prefix name k \<Longrightarrow> local_to name Q"
  unfolding local_to_def by (meson prefix_order.trans)

lemma local_to_ball: "(\<And>x. x \<in> A \<Longrightarrow> local_to name (Q x)) \<Longrightarrow> local_to name (\<lambda>st. \<forall>x \<in> A. Q x st)"
  unfolding local_to_def by blast

section \<open>A module without imports\<close>

definition binds_assigned :: "qualname \<Rightarrow> stmt list \<Rightarrow> sys_modules \<Rightarrow> bool" where
  "binds_assigned name ss st \<longleftrightarrow> (\<forall>y v. assigned y ss = Some v \<longrightarrow> getattr st name y = Some v)"

lemma local_to_binds_assigned [simp]: "local_to name (binds_assigned name ss)"
  by (simp add: local_to_def binds_assigned_def)

lemma getattr_assign_all_assigned:
  "list_all plain_stmt ss \<Longrightarrow> dict_has st name \<Longrightarrow> assigned y ss = Some v
     \<Longrightarrow> getattr (assign_all name ss st) name y = Some v"
proof (induction name ss st rule: assign_all.induct)
  case (1 cur st)
  then show ?case by simp
next
  case (2 cur x w ss st)
  show ?case
  proof (cases "assigned y ss")
    case None
    with "2.prems" have "y \<notin> set (bound_names ss)" and "x = y" and "w = v"
      by (auto split: if_splits)
    with "2.prems" show ?thesis
      by (simp add: getattr_assign_all_unbound)
  next
    case (Some u)
    with "2.prems" have "u = v" by simp
    with Some "2.prems" "2.IH" show ?thesis by simp
  qed
qed (auto split: option.splits if_splits)

lemma butlast_neq_self: "name \<noteq> [] \<Longrightarrow> butlast name \<noteq> name"
  by (cases name rule: rev_cases) auto

lemma neq_butlast_self: "name \<noteq> [] \<Longrightarrow> name \<noteq> butlast name"
  using butlast_neq_self [of name] by simp

lemma not_prefix_butlast: "name \<noteq> [] \<Longrightarrow> \<not> prefix name (butlast name)"
  by (cases name rule: rev_cases) (auto dest: prefix_length_le)

lemma loads_leaf:
  assumes sp: "F name = Some sp" and ss: "body sp = Some ss" and plain: "list_all plain_stmt ss"
    and name: "name \<noteq> []"
  shows "loads (find_and_load imp F) name (binds_assigned name ss)"
  unfolding loads_def
proof (intro conjI allI impI)
  show "name \<noteq> []" by (rule name)
next
  fix st
  assume pre: "mod_pre name st"
  let ?st2 = "move_to_end name (assign_all name ss (init_module name sp ss st))"
  let ?st3 = "setattr (butlast name) (last name) (ModuleV name) ?st2"
  from pre have fresh: "\<not> dict_has st name"
    by (simp add: mod_pre_def untouched_self)
  have load: "load_unlocked imp name sp st = Done ?st2"
    using ss plain by (rule load_unlocked_plain)
  have Q: "binds_assigned name ss ?st2"
    by (simp add: binds_assigned_def getattr_assign_all_assigned plain)
  show "\<exists>st'. find_and_load imp F name st = Done st' \<and> mod_post name st st'
      \<and> binds_assigned name ss st'"
  proof (cases "butlast name = []")
    case True
    with name fresh sp load have "find_and_load imp F name st = Done ?st2"
      by (simp add: find_and_load_def)
    moreover have "mod_post name st ?st2"
      using True by (auto simp: mod_post_def same_outside_def)
    ultimately show ?thesis using Q by blast
  next
    case False
    with pre have parent: "dict_has st (butlast name)" "hasattr st (butlast name) ''__path__''"
      by (simp_all add: mod_pre_def)
    with name fresh sp load False have "find_and_load imp F name st = Done ?st3"
      by (simp add: find_and_load_def)
    moreover have "mod_post name st ?st3"
      using False parent name
      by (auto simp: mod_post_def same_outside_def butlast_neq_self neq_butlast_self)
    moreover have "binds_assigned name ss ?st3"
      using Q name by (auto simp: binds_assigned_def butlast_neq_self neq_butlast_self)
    ultimately show ?thesis by blast
  qed
qed

section \<open>Importing a sibling\<close>

lemma resolve_name_dot [simp]: "cur \<noteq> [] \<Longrightarrow> resolve_name cur (Suc 0) [] = Inr cur"
  by (cases cur) (auto simp: resolve_name_def)

lemma reserved_path [simp]: "reserved ''__path__''"
  by (simp add: reserved_def)

lemma exec_sibling:
  assumes idem: "idempotent imp" and cur: "cur \<noteq> []" and x: "\<not> reserved x"
    and ld: "loads imp (cur @ [x]) Q"
    and st: "dict_has st cur" "hasattr st cur ''__path__''" "\<not> hasattr st cur x"
      "untouched (cur @ [x]) st"
  obtains st' where "exec_stmt imp cur cur (from_dot_import x) st = Done st'"
    and "mod_post (cur @ [x]) st st'" and "Q st'"
proof -
  from st have "mod_pre (cur @ [x]) st"
    by (simp add: mod_pre_def)
  with ld obtain st' where imp: "imp (cur @ [x]) st = Done st'"
    and post: "mod_post (cur @ [x]) st st'" and Q: "Q st'"
    by (rule loadsE)
  from post have bound: "getattr st' cur x = Some (ModuleV (cur @ [x]))"
    using cur by (simp add: mod_post_def)
  from idem cur st(1) have self: "imp cur st = Done st"
    by (simp add: idempotent_def)
  have "exec_stmt imp cur cur (from_dot_import x) st = Done st'"
    using cur x st(2,3) self imp bound
    by (simp add: from_dot_import_def exec_from_def import_from_def setattr_same)
  from this post Q show ?thesis by (rule that)
qed

section \<open>A chain of sibling imports\<close>

definition chain_pre :: "qualname \<Rightarrow> string list \<Rightarrow> sys_modules \<Rightarrow> bool" where
  "chain_pre cur xs st \<longleftrightarrow>
     dict_has st cur \<and> hasattr st cur ''__path__'' \<and>
     (\<forall>x \<in> set xs. \<not> hasattr st cur x \<and> untouched (cur @ [x]) st)"

definition chain_post :: "qualname \<Rightarrow> string list \<Rightarrow> sys_modules \<Rightarrow> sys_modules \<Rightarrow> bool" where
  "chain_post cur xs st st' \<longleftrightarrow>
     (\<forall>k. dict_has st k \<longrightarrow> dict_has st' k) \<and>
     (\<forall>k. dict_has st' k \<longrightarrow> dict_has st k \<or> (\<exists>x \<in> set xs. prefix (cur @ [x]) k)) \<and>
     (\<forall>m y. (\<forall>x \<in> set xs. \<not> prefix (cur @ [x]) m) \<longrightarrow> \<not> (m = cur \<and> y \<in> set xs) \<longrightarrow>
        getattr st' m y = getattr st m y) \<and>
     (\<forall>x \<in> set xs. dict_has st' (cur @ [x]) \<and> getattr st' cur x = Some (ModuleV (cur @ [x])))"

lemma chain_post_Nil [simp]: "chain_post cur [] st st"
  by (simp add: chain_post_def)

lemma chain_post_grow: "chain_post cur xs st st' \<Longrightarrow> dict_has st k \<Longrightarrow> dict_has st' k"
  by (simp add: chain_post_def)

lemma chain_post_own_attr:
  "chain_post cur xs st st' \<Longrightarrow> y \<notin> set xs \<Longrightarrow> getattr st' cur y = getattr st cur y"
  by (simp add: chain_post_def)

lemma chain_post_new:
  "chain_post cur xs st st' \<Longrightarrow> dict_has st' k \<Longrightarrow> dict_has st k \<or> (prefix cur k \<and> k \<noteq> cur)"
  unfolding chain_post_def by (auto simp: prefix_def)

lemma chain_post_outside:
  assumes "chain_post cur xs st st'" and "\<not> prefix cur m"
  shows "getattr st' m y = getattr st m y"
proof -
  from assms(2) have "\<forall>x \<in> set xs. \<not> prefix (cur @ [x]) m" and "m \<noteq> cur"
    by (auto simp: prefix_def)
  with assms(1) show ?thesis
    by (simp add: chain_post_def)
qed

lemma chain_post_bound:
  "chain_post cur xs st st' \<Longrightarrow> x \<in> set xs
     \<Longrightarrow> dict_has st' (cur @ [x]) \<and> getattr st' cur x = Some (ModuleV (cur @ [x]))"
  by (simp add: chain_post_def)

lemma chain_pre_after:
  assumes pre: "chain_pre cur (x # xs) st" and post: "mod_post (cur @ [x]) st st1"
    and new: "x \<notin> set xs" and x: "\<not> reserved x"
  shows "chain_pre cur xs st1"
proof -
  from post have grow: "\<And>k. dict_has st k \<Longrightarrow> dict_has st1 k"
    and fresh: "\<And>k. dict_has st1 k \<Longrightarrow> dict_has st k \<or> prefix (cur @ [x]) k"
    and frame: "\<And>y. y \<noteq> x \<Longrightarrow> getattr st1 cur y = getattr st cur y"
    by (auto simp: mod_post_def same_outside_def)
  from x have "x \<noteq> ''__path__''" by auto
  with pre grow frame have "dict_has st1 cur" and "hasattr st1 cur ''__path__''"
    by (auto simp: chain_pre_def hasattr_def)
  moreover have "\<not> hasattr st1 cur y \<and> untouched (cur @ [y]) st1" if y: "y \<in> set xs" for y
  proof
    from y new have "y \<noteq> x" by auto
    with pre y frame show "\<not> hasattr st1 cur y"
      by (simp add: chain_pre_def hasattr_def)
    from pre y have "untouched (cur @ [y]) st"
      by (simp add: chain_pre_def)
    with fresh \<open>y \<noteq> x\<close> show "untouched (cur @ [y]) st1"
      unfolding untouched_def by (metis siblings_disjoint)
  qed
  ultimately show ?thesis by (simp add: chain_pre_def)
qed

lemma chain_post_Cons:
  assumes post: "mod_post (cur @ [x]) st st1" and rest: "chain_post cur xs st1 st2"
    and new: "x \<notin> set xs" and cur: "cur \<noteq> []"
  shows "chain_post cur (x # xs) st st2"
proof -
  from post cur have reg: "dict_has st1 (cur @ [x])"
    and bound: "getattr st1 cur x = Some (ModuleV (cur @ [x]))"
    and grow1: "\<And>k. dict_has st k \<Longrightarrow> dict_has st1 k"
    and new1: "\<And>k. dict_has st1 k \<Longrightarrow> dict_has st k \<or> prefix (cur @ [x]) k"
    and frame1: "\<And>m y. \<not> prefix (cur @ [x]) m \<Longrightarrow> \<not> (m = cur \<and> y = x)
       \<Longrightarrow> getattr st1 m y = getattr st m y"
    by (simp_all add: mod_post_def same_outside_def)
  from rest have grow2: "\<And>k. dict_has st1 k \<Longrightarrow> dict_has st2 k"
    and new2: "\<And>k. dict_has st2 k \<Longrightarrow> dict_has st1 k \<or> (\<exists>z \<in> set xs. prefix (cur @ [z]) k)"
    and frame2: "\<And>m y. \<forall>z \<in> set xs. \<not> prefix (cur @ [z]) m \<Longrightarrow> \<not> (m = cur \<and> y \<in> set xs)
       \<Longrightarrow> getattr st2 m y = getattr st1 m y"
    and bound2: "\<And>z. z \<in> set xs \<Longrightarrow>
       dict_has st2 (cur @ [z]) \<and> getattr st2 cur z = Some (ModuleV (cur @ [z]))"
    by (simp_all add: chain_post_def)
  have "getattr st2 cur x = getattr st1 cur x"
    using new by (intro frame2) auto
  with bound reg grow2 have x: "dict_has st2 (cur @ [x])"
    "getattr st2 cur x = Some (ModuleV (cur @ [x]))"
    by simp_all
  have a: "\<forall>k. dict_has st k \<longrightarrow> dict_has st2 k"
    using grow1 grow2 by blast
  have b: "\<forall>k. dict_has st2 k \<longrightarrow> dict_has st k \<or> (\<exists>z \<in> set (x # xs). prefix (cur @ [z]) k)"
    using new1 new2 by fastforce
  have c: "\<forall>m y. (\<forall>z \<in> set (x # xs). \<not> prefix (cur @ [z]) m) \<longrightarrow>
      \<not> (m = cur \<and> y \<in> set (x # xs)) \<longrightarrow> getattr st2 m y = getattr st m y"
    using frame1 frame2 by simp
  have d: "\<forall>z \<in> set (x # xs).
      dict_has st2 (cur @ [z]) \<and> getattr st2 cur z = Some (ModuleV (cur @ [z]))"
    using x bound2 by simp
  from a b c d show ?thesis
    unfolding chain_post_def by blast
qed

lemma local_to_preserved:
  assumes loc: "local_to (cur @ [x]) Q" and Q: "Q st1" and rest: "chain_post cur xs st1 st2"
    and new: "x \<notin> set xs"
  shows "Q st2"
proof -
  have "(dict_has st2 k \<longleftrightarrow> dict_has st1 k) \<and> (\<forall>y. getattr st2 k y = getattr st1 k y)"
    if k: "prefix (cur @ [x]) k" for k
  proof -
    from k new have other: "\<forall>z \<in> set xs. \<not> prefix (cur @ [z]) k"
      by (metis siblings_disjoint)
    from k have "k \<noteq> cur"
      by (auto simp: prefix_def)
    with other rest show ?thesis
      unfolding chain_post_def by blast
  qed
  with loc Q show ?thesis
    unfolding local_to_def by blast
qed

theorem exec_chain:
  assumes idem: "idempotent imp" and cur: "cur \<noteq> []" and dist: "distinct xs"
    and subs: "\<forall>x \<in> set xs. \<not> reserved x \<and> loads imp (cur @ [x]) (Q x) \<and> local_to (cur @ [x]) (Q x)"
    and pre: "chain_pre cur xs st"
  shows "\<exists>st'. exec_stmts imp cur cur (map from_dot_import xs) st = Done st'
     \<and> chain_post cur xs st st' \<and> (\<forall>x \<in> set xs. Q x st')"
  using dist subs pre
proof (induction xs arbitrary: st)
  case Nil
  then show ?case by simp
next
  case (Cons x xs)
  from Cons.prems have x: "\<not> reserved x" "loads imp (cur @ [x]) (Q x)" "local_to (cur @ [x]) (Q x)"
    and new: "x \<notin> set xs"
    by simp_all
  from Cons.prems(3) have "dict_has st cur" "hasattr st cur ''__path__''" "\<not> hasattr st cur x"
    "untouched (cur @ [x]) st"
    by (simp_all add: chain_pre_def)
  with idem cur x(1,2) obtain st1 where step: "exec_stmt imp cur cur (from_dot_import x) st = Done st1"
    and post: "mod_post (cur @ [x]) st st1" and Q1: "Q x st1"
    by (rule exec_sibling)
  from Cons.prems(3) post new x(1) have "chain_pre cur xs st1"
    by (rule chain_pre_after)
  moreover from Cons.prems have "distinct xs"
    and "\<forall>x \<in> set xs. \<not> reserved x \<and> loads imp (cur @ [x]) (Q x) \<and> local_to (cur @ [x]) (Q x)"
    by simp_all
  ultimately obtain st2 where run: "exec_stmts imp cur cur (map from_dot_import xs) st1 = Done st2"
    and rest: "chain_post cur xs st1 st2" and Qs: "\<forall>y \<in> set xs. Q y st2"
    using Cons.IH by blast
  from x(3) Q1 rest new have "Q x st2"
    by (rule local_to_preserved)
  moreover from post rest new cur have "chain_post cur (x # xs) st st2"
    by (rule chain_post_Cons)
  ultimately show ?case
    using step run Qs by simp
qed

section \<open>A package whose initialiser imports its submodules\<close>

lemma chain_pre_init:
  assumes pkg: "is_package sp" and fresh: "untouched name st"
    and plain: "list_all plain_stmt pre"
    and xs: "\<forall>x \<in> set xs. \<not> reserved x \<and> x \<noteq> ''__doc__'' \<and> x \<notin> set (bound_names pre)"
  shows "chain_pre name xs (assign_all name pre (init_module name sp ss st))"
proof -
  have "''__path__'' \<notin> set (bound_names pre)"
    using plain plain_not_reserved by fastforce
  with pkg have "hasattr (assign_all name pre (init_module name sp ss st)) name ''__path__''"
    by (simp add: hasattr_def getattr_assign_all_unbound)
  moreover have "\<not> hasattr (assign_all name pre (init_module name sp ss st)) name x"
    if "x \<in> set xs" for x
    using that xs by (simp add: hasattr_def getattr_assign_all_unbound)
  moreover have "untouched (name @ [x]) (assign_all name pre (init_module name sp ss st))" for x
    using fresh by (auto simp: untouched_def prefix_def)
  ultimately show ?thesis
    by (simp add: chain_pre_def)
qed

lemma exec_pkg_body:
  assumes plain: "list_all plain_stmt pre" "list_all plain_stmt post"
    and idem: "idempotent imp" and name: "name \<noteq> []" and dist: "distinct xs"
    and subs: "\<forall>x \<in> set xs. \<not> reserved x \<and> loads imp (name @ [x]) (Q x) \<and> local_to (name @ [x]) (Q x)"
    and pre: "chain_pre name xs (assign_all name pre st0)"
  shows "\<exists>st2. exec_stmts imp name name (pre @ map from_dot_import xs @ post) st0 =
       Done (assign_all name post st2)
     \<and> chain_post name xs (assign_all name pre st0) st2 \<and> (\<forall>x \<in> set xs. Q x st2)"
proof -
  from idem name dist subs pre obtain st2
    where run: "exec_stmts imp name name (map from_dot_import xs) (assign_all name pre st0) = Done st2"
      and post: "chain_post name xs (assign_all name pre st0) st2" and Q: "\<forall>x \<in> set xs. Q x st2"
    using exec_chain by blast
  from plain run
  have "exec_stmts imp name name (pre @ map from_dot_import xs @ post) st0 =
      Done (assign_all name post st2)"
    by (simp add: exec_stmts_append exec_stmts_plain)
  with post Q show ?thesis by blast
qed

definition pkg_post ::
  "qualname \<Rightarrow> stmt list \<Rightarrow> string list \<Rightarrow> stmt list \<Rightarrow> (string \<Rightarrow> sys_modules \<Rightarrow> bool)
     \<Rightarrow> sys_modules \<Rightarrow> bool" where
  "pkg_post name pre xs post Q st \<longleftrightarrow>
     (\<forall>x \<in> set xs. Q x st \<and> dict_has st (name @ [x]) \<and>
        (x \<notin> set (bound_names post) \<longrightarrow> getattr st name x = Some (ModuleV (name @ [x])))) \<and>
     binds_assigned name (pre @ map from_dot_import xs @ post) st"

lemma pkg_post_sub:
  assumes "pkg_post name pre xs post Q st" and "x \<in> set xs"
  shows "Q x st" and "dict_has st (name @ [x])"
    and "x \<notin> set (bound_names post) \<Longrightarrow> getattr st name x = Some (ModuleV (name @ [x]))"
  using assms by (simp_all add: pkg_post_def)

lemma pkg_post_binds:
  "pkg_post name pre xs post Q st \<Longrightarrow> assigned y (pre @ map from_dot_import xs @ post) = Some v
     \<Longrightarrow> getattr st name y = Some v"
  by (simp add: pkg_post_def binds_assigned_def)

lemma prefix_snoc_below: "prefix (name @ [x]) k \<Longrightarrow> prefix name k \<and> k \<noteq> name"
  by (auto simp: prefix_def)

lemma local_to_setattr:
  "local_to name P \<Longrightarrow> P st \<Longrightarrow> \<not> prefix name m \<Longrightarrow> P (setattr m y v st)"
proof -
  assume loc: "local_to name P" and P: "P st" and m: "\<not> prefix name m"
  have "(dict_has (setattr m y v st) k \<longleftrightarrow> dict_has st k) \<and>
      (\<forall>z. getattr (setattr m y v st) k z = getattr st k z)" if "prefix name k" for k
    using that m by auto
  with loc P show ?thesis
    unfolding local_to_def by blast
qed

lemma local_to_pkg_post:
  assumes "\<forall>x \<in> set xs. local_to (name @ [x]) (Q x)"
  shows "local_to name (pkg_post name pre xs post Q)"
proof -
  have "local_to name (Q x)" if "x \<in> set xs" for x
    using assms that by (auto intro: local_to_below)
  moreover have "local_to name (\<lambda>st. dict_has st (name @ [x]))" for x
    by (simp add: local_to_dict_has)
  moreover have "local_to name (\<lambda>st. P \<longrightarrow> getattr st name x = v)" for P x v
    by (simp add: local_to_def)
  ultimately have "local_to name (\<lambda>st. \<forall>x \<in> set xs. Q x st \<and> dict_has st (name @ [x]) \<and>
      (x \<notin> set (bound_names post) \<longrightarrow> getattr st name x = Some (ModuleV (name @ [x]))))"
    by (intro local_to_ball local_to_conj) auto
  then show ?thesis
    unfolding pkg_post_def by (intro local_to_conj) simp_all
qed

lemma pkg_same_outside:
  assumes chain: "chain_post name xs (assign_all name pre (init_module name sp ss st)) st2"
  shows "same_outside name st (move_to_end name (assign_all name post st2))"
proof -
  have a: "dict_has st2 k" if "dict_has st k" for k
    using that by (intro chain_post_grow [OF chain]) simp
  have b: "dict_has st k \<or> prefix name k" if "dict_has st2 k" for k
    using chain_post_new [OF chain that] by auto
  have c: "getattr st2 m y = getattr st m y" if "\<not> prefix name m" for m y
  proof -
    from that have "m \<noteq> name" by auto
    with chain_post_outside [OF chain that, of y] show ?thesis by simp
  qed
  show ?thesis
    unfolding same_outside_def
  proof (intro conjI allI impI)
    fix k assume "dict_has st k"
    then show "dict_has (move_to_end name (assign_all name post st2)) k"
      by (simp add: a)
  next
    fix k assume "dict_has (move_to_end name (assign_all name post st2)) k"
    then show "dict_has st k \<or> prefix name k"
      by (simp add: b)
  next
    fix m y assume m: "\<not> prefix name m"
    then have "m \<noteq> name" by auto
    with m show "getattr (move_to_end name (assign_all name post st2)) m y = getattr st m y"
      by (simp add: c)
  qed
qed

lemma pkg_post_holds:
  assumes chain: "chain_post name xs (assign_all name pre st0) st2"
    and Qs: "\<forall>x \<in> set xs. Q x st2 \<and> local_to (name @ [x]) (Q x)"
    and plain: "list_all plain_stmt pre" "list_all plain_stmt post"
    and reg: "dict_has st0 name"
  shows "pkg_post name pre xs post Q (move_to_end name (assign_all name post st2))"
proof -
  let ?st1 = "assign_all name pre st0" and ?st4 = "move_to_end name (assign_all name post st2)"
  note grow = chain_post_grow [OF chain] and frame = chain_post_own_attr [OF chain]
    and bound = chain_post_bound [OF chain]
  from reg have reg2: "dict_has st2 name" by (intro grow) simp
  have "Q x ?st4 \<and> dict_has ?st4 (name @ [x]) \<and>
      (x \<notin> set (bound_names post) \<longrightarrow> getattr ?st4 name x = Some (ModuleV (name @ [x])))"
    if x: "x \<in> set xs" for x
  proof -
    from x Qs have "Q x st2" and loc: "local_to (name @ [x]) (Q x)" by auto
    moreover have "(dict_has ?st4 k \<longleftrightarrow> dict_has st2 k) \<and> (\<forall>y. getattr ?st4 k y = getattr st2 k y)"
      if "prefix (name @ [x]) k" for k
      using that prefix_snoc_below [of name x k] by simp
    ultimately have "Q x ?st4"
      unfolding local_to_def by blast
    with bound [OF x] show ?thesis
      by (simp add: getattr_assign_all_unbound)
  qed
  moreover have "getattr ?st4 name y = Some v"
    if y: "assigned y (pre @ map from_dot_import xs @ post) = Some v" for y v
  proof (cases "assigned y post")
    case (Some u)
    with y have "u = v" by (simp add: assigned_append)
    with Some plain(2) reg2 show ?thesis
      by (simp add: getattr_assign_all_assigned)
  next
    case None
    with y have unb: "y \<notin> set (bound_names post)" "y \<notin> set xs" and pre: "assigned y pre = Some v"
      by (auto simp: assigned_append split: if_splits)
    from pre plain(1) reg have "getattr ?st1 name y = Some v"
      by (simp add: getattr_assign_all_assigned)
    with unb frame show ?thesis
      by (simp add: getattr_assign_all_unbound)
  qed
  ultimately show ?thesis
    by (simp add: pkg_post_def binds_assigned_def)
qed

theorem loads_package:
  assumes sp: "F name = Some sp" and pkg: "is_package sp"
    and body: "body sp = Some (pre @ map from_dot_import xs @ post)"
    and plain: "list_all plain_stmt pre" "list_all plain_stmt post"
    and dist: "distinct xs"
    and xs: "\<forall>x \<in> set xs. \<not> reserved x \<and> x \<noteq> ''__doc__'' \<and> x \<notin> set (bound_names pre)"
    and subs: "\<forall>x \<in> set xs. loads imp (name @ [x]) (Q x) \<and> local_to (name @ [x]) (Q x)"
    and idem: "idempotent imp" and name: "name \<noteq> []"
  shows "loads (find_and_load imp F) name (pkg_post name pre xs post Q)"
  unfolding loads_def
proof (intro conjI allI impI)
  show "name \<noteq> []" by (rule name)
next
  fix st
  assume pre_st: "mod_pre name st"
  let ?body = "pre @ map from_dot_import xs @ post"
  let ?st0 = "init_module name sp ?body st"
  from pre_st have fresh: "untouched name st"
    by (simp add: mod_pre_def)
  from pkg fresh plain(1) xs have "chain_pre name xs (assign_all name pre ?st0)"
    by (rule chain_pre_init)
  with plain idem name dist subs xs obtain st2
    where run: "exec_stmts imp name name ?body ?st0 = Done (assign_all name post st2)"
      and chain: "chain_post name xs (assign_all name pre ?st0) st2" and Qs: "\<forall>x \<in> set xs. Q x st2"
    using exec_pkg_body [of pre post imp name xs Q ?st0] by auto
  let ?st4 = "move_to_end name (assign_all name post st2)"
  from chain have reg: "dict_has st2 name"
    by (rule chain_post_grow) simp
  with body pkg run have load: "load_unlocked imp name sp st = Done ?st4"
    by (simp add: load_unlocked_def spec_parent_def)
  from chain have so: "same_outside name st ?st4"
    by (rule pkg_same_outside)
  from chain Qs subs plain have pp: "pkg_post name pre xs post Q ?st4"
    by (intro pkg_post_holds) auto
  from fresh have nl: "\<not> dict_has st name"
    by (rule untouched_self)
  show "\<exists>st'. find_and_load imp F name st = Done st' \<and> mod_post name st st'
      \<and> pkg_post name pre xs post Q st'"
  proof (cases "butlast name = []")
    case True
    with name nl sp load have "find_and_load imp F name st = Done ?st4"
      by (simp add: find_and_load_def)
    moreover from True so reg have "mod_post name st ?st4"
      by (simp add: mod_post_def)
    ultimately show ?thesis using pp by blast
  next
    case False
    let ?st5 = "setattr (butlast name) (last name) (ModuleV name) ?st4"
    from False pre_st have parent: "dict_has st (butlast name)" "hasattr st (butlast name) ''__path__''"
      by (simp_all add: mod_pre_def)
    with name nl sp load False have "find_and_load imp F name st = Done ?st5"
      by (simp add: find_and_load_def)
    moreover from so parent(1) reg name have "mod_post name st ?st5"
      by (auto simp: mod_post_def same_outside_def)
    moreover from subs have "local_to name (pkg_post name pre xs post Q)"
      by (intro local_to_pkg_post) simp
    from this pp not_prefix_butlast [OF name] have "pkg_post name pre xs post Q ?st5"
      by (rule local_to_setattr)
    ultimately show ?thesis by blast
  qed
qed

section \<open>Imports that raise\<close>

text \<open>
  When the import of a sibling raises, the statement \<^verbatim>\<open>from . import x\<close> raises
  too. \<^verbatim>\<open>_handle_fromlist\<close> swallows the \<^verbatim>\<open>ModuleNotFoundError\<close> for the
  sibling itself, after which the lookup of the attribute fails with
  \<^verbatim>\<open>ImportError: cannot import name\<close>; every other exception passes through.
  \<open>sibling_error\<close> is the exception the statement ends with.
\<close>

definition sibling_error :: "qualname \<Rightarrow> string \<Rightarrow> py_error \<Rightarrow> py_error" where
  "sibling_error cur x e =
     (if e = ModuleNotFoundError (cur @ [x]) then ImportError_cannot_import_name x cur else e)"

lemma sibling_error_missing [simp]:
  "sibling_error cur x (ModuleNotFoundError (cur @ [x])) = ImportError_cannot_import_name x cur"
  by (simp add: sibling_error_def)

lemma sibling_error_import [simp]:
  "sibling_error cur x (ImportError_cannot_import_name y m) = ImportError_cannot_import_name y m"
  by (simp add: sibling_error_def)

lemma exec_sibling_raises:
  assumes idem: "idempotent imp" and cur: "cur \<noteq> []" and x: "\<not> reserved x"
    and st: "dict_has st cur" "hasattr st cur ''__path__''" "\<not> hasattr st cur x"
    and sub: "imp (cur @ [x]) st = Raised e st"
    and gone: "e = ModuleNotFoundError (cur @ [x]) \<Longrightarrow> \<not> dict_has st (cur @ [x])"
  shows "exec_stmt imp cur cur (from_dot_import x) st = Raised (sibling_error cur x e) st"
proof -
  from idem cur st(1) have self: "imp cur st = Done st"
    by (simp add: idempotent_def)
  from st(3) have none: "getattr st cur x = None"
    by (simp add: hasattr_def)
  show ?thesis
  proof (cases "e = ModuleNotFoundError (cur @ [x])")
    case True
    with gone cur x st(2,3) self sub none show ?thesis
      by (simp add: from_dot_import_def exec_from_def import_from_def)
  next
    case False
    with cur x st(2,3) self sub show ?thesis
      by (simp add: from_dot_import_def exec_from_def sibling_error_def)
  qed
qed

lemma started_package:
  assumes "is_package sp" and "list_all plain_stmt pre"
  shows "dict_has (assign_all name pre (init_module name sp ss st)) name"
    and "hasattr (assign_all name pre (init_module name sp ss st)) name ''__path__''"
proof -
  have "''__path__'' \<notin> set (bound_names pre)"
    using assms(2) plain_not_reserved by fastforce
  with assms(1) show "hasattr (assign_all name pre (init_module name sp ss st)) name ''__path__''"
    by (simp add: hasattr_def getattr_assign_all_unbound)
qed simp

text \<open>
  The first sibling import of a package raises: the package raises the same
  way, and since nothing but the package itself was registered, unregistering
  it restores the module table exactly.
\<close>

theorem load_unlocked_first_raises:
  assumes body: "body sp = Some (pre @ from_dot_import x # rest)" and pkg: "is_package sp"
    and plain: "list_all plain_stmt pre"
    and x: "\<not> reserved x" "x \<noteq> ''__doc__''" "x \<notin> set (bound_names pre)"
    and idem: "idempotent imp" and name: "name \<noteq> []" and fresh: "\<not> dict_has st name"
    and sub: "imp (name @ [x]) (assign_all name pre (init_module name sp (pre @ from_dot_import x # rest) st))
       = Raised e (assign_all name pre (init_module name sp (pre @ from_dot_import x # rest) st))"
    and gone: "e = ModuleNotFoundError (name @ [x]) \<Longrightarrow> \<not> dict_has st (name @ [x])"
  shows "load_unlocked imp name sp st = Raised (sibling_error name x e) st"
proof -
  let ?st1 = "assign_all name pre (init_module name sp (pre @ from_dot_import x # rest) st)"
  from pkg plain have "dict_has ?st1 name" "hasattr ?st1 name ''__path__''"
    by (rule started_package)+
  moreover from x have "\<not> hasattr ?st1 name x"
    by (simp add: hasattr_def getattr_assign_all_unbound)
  moreover from gone name have "e = ModuleNotFoundError (name @ [x]) \<Longrightarrow> \<not> dict_has ?st1 (name @ [x])"
    by simp
  ultimately have "exec_stmt imp name name (from_dot_import x) ?st1 =
      Raised (sibling_error name x e) ?st1"
    using idem name x(1) sub by (intro exec_sibling_raises)
  with pkg have "exec_stmts imp name (spec_parent name sp) (from_dot_import x # rest) ?st1 =
      Raised (sibling_error name x e) ?st1"
    by (simp add: spec_parent_def)
  with body plain have "load_unlocked imp name sp st =
      Raised (sibling_error name x e) (dict_del name ?st1)"
    by (rule load_unlocked_raises)
  with fresh show ?thesis by simp
qed

section \<open>A package that raises after some of its imports\<close>

text \<open>
  \<open>fails_cleanly imp name e\<close>: from every state in which \<open>name\<close> can be
  imported, the import raises \<open>e\<close> and leaves the module table as it was. A
  module that the finder does not know fails cleanly with
  \<^verbatim>\<open>ModuleNotFoundError\<close>. \<open>orphans name xs st st'\<close> describes the table after a
  package \<open>name\<close> has imported the submodules \<open>xs\<close> and then raised: the
  package is unregistered, the submodules it had imported stay.
\<close>

definition fails_cleanly :: "importer \<Rightarrow> qualname \<Rightarrow> py_error \<Rightarrow> bool" where
  "fails_cleanly imp name e \<longleftrightarrow> (\<forall>st. mod_pre name st \<longrightarrow> imp name st = Raised e st)"

definition orphans :: "qualname \<Rightarrow> string list \<Rightarrow> sys_modules \<Rightarrow> sys_modules \<Rightarrow> bool" where
  "orphans name xs st st' \<longleftrightarrow>
     \<not> dict_has st' name \<and>
     (\<forall>k. dict_has st k \<longrightarrow> dict_has st' k) \<and>
     (\<forall>x \<in> set xs. dict_has st' (name @ [x])) \<and>
     (\<forall>k. dict_has st' k \<longrightarrow> dict_has st k \<or> (\<exists>x \<in> set xs. prefix (name @ [x]) k)) \<and>
     (\<forall>m y. \<not> prefix name m \<longrightarrow> getattr st' m y = getattr st m y)"

lemma fails_cleanly_missing:
  assumes "F name = None" and "name \<noteq> []"
  shows "fails_cleanly (find_and_load imp F) name (ModuleNotFoundError name)"
  unfolding fails_cleanly_def
proof (intro allI impI)
  fix st
  assume "mod_pre name st"
  then have "\<not> dict_has st name"
    and "butlast name = [] \<or> (dict_has st (butlast name) \<and> hasattr st (butlast name) ''__path__'')"
    by (auto simp: mod_pre_def untouched_self)
  with assms show "find_and_load imp F name st = Raised (ModuleNotFoundError name) st"
    by (intro find_and_load_missing)
qed

lemma find_and_load_raises:
  assumes "name \<noteq> []" and "mod_pre name st" and "F name = Some sp"
    and "load_unlocked imp name sp st = Raised e st'"
  shows "find_and_load imp F name st = Raised e st'"
proof (cases "butlast name = []")
  case True
  with assms show ?thesis
    by (simp add: find_and_load_top mod_pre_def untouched_self)
next
  case False
  with assms show ?thesis
    by (intro find_and_load_child_raises) (simp_all add: mod_pre_def untouched_self)
qed

lemma local_to_dict_del:
  assumes "local_to q P" and "P st" and "\<not> prefix q m"
  shows "P (dict_del m st)"
proof -
  have "(dict_has (dict_del m st) k \<longleftrightarrow> dict_has st k) \<and>
      (\<forall>z. getattr (dict_del m st) k z = getattr st k z)" if "prefix q k" for k
    using that assms(3) by auto
  with assms(1,2) show ?thesis
    unfolding local_to_def by blast
qed

lemma chain_pre_rest:
  assumes pre: "chain_pre cur (xs @ ys) st" and post: "chain_post cur xs st st'"
    and dist: "distinct (xs @ ys)" and xs: "\<forall>x \<in> set xs. \<not> reserved x"
  shows "chain_pre cur ys st'"
proof -
  from xs have "''__path__'' \<notin> set xs" by auto
  with pre post have "dict_has st' cur" "hasattr st' cur ''__path__''"
    by (simp_all add: chain_pre_def hasattr_def chain_post_grow chain_post_own_attr)
  moreover have "\<not> hasattr st' cur y \<and> untouched (cur @ [y]) st'" if y: "y \<in> set ys" for y
  proof
    from y dist have new: "y \<notin> set xs" by auto
    with pre post y show "\<not> hasattr st' cur y"
      by (simp add: chain_pre_def hasattr_def chain_post_own_attr)
    show "untouched (cur @ [y]) st'"
      unfolding untouched_def
    proof (intro allI impI notI)
      fix k
      assume k: "prefix (cur @ [y]) k" "dict_has st' k"
      from post k(2) consider "dict_has st k" | x where "x \<in> set xs" "prefix (cur @ [x]) k"
        unfolding chain_post_def by blast
      then show False
      proof cases
        case 1
        with pre y k(1) show False
          by (auto simp: chain_pre_def untouched_def)
      next
        case 2
        with k(1) have "x = y" by (metis siblings_disjoint)
        with 2 new show False by simp
      qed
    qed
  qed
  ultimately show ?thesis by (simp add: chain_pre_def)
qed

theorem exec_chain_raises:
  assumes idem: "idempotent imp" and cur: "cur \<noteq> []" and dist: "distinct (xs @ [x])"
    and subs: "\<forall>y \<in> set xs. \<not> reserved y \<and> loads imp (cur @ [y]) (Q y) \<and> local_to (cur @ [y]) (Q y)"
    and x: "\<not> reserved x" and fails: "fails_cleanly imp (cur @ [x]) e"
    and pre: "chain_pre cur (xs @ [x]) st"
  shows "\<exists>st'. exec_stmts imp cur cur (map from_dot_import xs @ from_dot_import x # rest) st =
       Raised (sibling_error cur x e) st'
     \<and> chain_post cur xs st st' \<and> (\<forall>y \<in> set xs. Q y st')"
proof -
  from pre have "chain_pre cur xs st"
    by (simp add: chain_pre_def)
  with idem cur dist subs obtain st'
    where run: "exec_stmts imp cur cur (map from_dot_import xs) st = Done st'"
      and post: "chain_post cur xs st st'" and Qs: "\<forall>y \<in> set xs. Q y st'"
    using exec_chain [of imp cur xs Q st] by auto
  from subs have "\<forall>y \<in> set xs. \<not> reserved y" by simp
  with pre post dist have "chain_pre cur [x] st'"
    by (rule chain_pre_rest)
  then have st': "dict_has st' cur" "hasattr st' cur ''__path__''" "\<not> hasattr st' cur x"
    "untouched (cur @ [x]) st'"
    by (simp_all add: chain_pre_def)
  then have "mod_pre (cur @ [x]) st'"
    by (simp add: mod_pre_def)
  with fails have "imp (cur @ [x]) st' = Raised e st'"
    by (simp add: fails_cleanly_def)
  with idem cur x st'(1-3) have "exec_stmt imp cur cur (from_dot_import x) st' =
      Raised (sibling_error cur x e) st'"
    using st'(4) by (intro exec_sibling_raises) (simp_all add: untouched_self)
  with run post Qs show ?thesis
    by (simp add: exec_stmts_append)
qed

lemma orphans_after_chain:
  assumes post: "chain_post name xs (assign_all name pre (init_module name sp ss st)) st2"
    and fresh: "\<not> dict_has st name" and name: "name \<noteq> []"
  shows "orphans name xs st (dict_del name st2)"
proof -
  let ?st1 = "assign_all name pre (init_module name sp ss st)"
  have sub: "name @ [x] \<noteq> name" for x by simp
  have "dict_has (dict_del name st2) k" if "dict_has st k" for k
  proof -
    from that fresh have "k \<noteq> name" by auto
    moreover from that have "dict_has ?st1 k" by simp
    with post have "dict_has st2 k" by (rule chain_post_grow)
    ultimately show ?thesis by simp
  qed
  moreover have "dict_has (dict_del name st2) (name @ [x])" if "x \<in> set xs" for x
    using chain_post_bound [OF post that] by simp
  moreover have "dict_has st k \<or> (\<exists>x \<in> set xs. prefix (name @ [x]) k)"
    if "dict_has (dict_del name st2) k" for k
  proof -
    from that have k: "k \<noteq> name" "dict_has st2 k" by simp_all
    with post have "dict_has ?st1 k \<or> (\<exists>x \<in> set xs. prefix (name @ [x]) k)"
      unfolding chain_post_def by blast
    with k(1) show ?thesis by simp
  qed
  moreover have "getattr (dict_del name st2) m y = getattr st m y" if "\<not> prefix name m" for m y
  proof -
    from that have "m \<noteq> name" by auto
    with chain_post_outside [OF post that, of y] show ?thesis by simp
  qed
  ultimately show ?thesis
    by (simp add: orphans_def)
qed

text \<open>
  A package whose initialiser imports the submodules \<open>xs\<close>, which load, and
  then a submodule \<open>x\<close> whose import fails cleanly: the import of the package
  raises, the package is unregistered, and the submodules \<open>xs\<close> stay registered
  with what their imports established.
\<close>

theorem package_raises_after:
  assumes sp: "F name = Some sp" and pkg: "is_package sp"
    and body: "body sp = Some (pre @ map from_dot_import xs @ from_dot_import x # rest)"
    and plain: "list_all plain_stmt pre" and dist: "distinct (xs @ [x])"
    and names: "\<forall>y \<in> set (xs @ [x]). \<not> reserved y \<and> y \<noteq> ''__doc__'' \<and> y \<notin> set (bound_names pre)"
    and subs: "\<forall>y \<in> set xs. loads imp (name @ [y]) (Q y) \<and> local_to (name @ [y]) (Q y)"
    and fails: "fails_cleanly imp (name @ [x]) e"
    and idem: "idempotent imp" and name: "name \<noteq> []" and pre_st: "mod_pre name st"
  shows "\<exists>st'. find_and_load imp F name st = Raised (sibling_error name x e) st'
     \<and> orphans name xs st st' \<and> (\<forall>y \<in> set xs. Q y st')"
proof -
  let ?ss = "map from_dot_import xs @ from_dot_import x # rest"
  let ?st1 = "assign_all name pre (init_module name sp (pre @ ?ss) st)"
  from pre_st have fresh: "untouched name st"
    by (simp add: mod_pre_def)
  with pkg plain names have "chain_pre name (xs @ [x]) ?st1"
    by (intro chain_pre_init)
  with idem name dist subs names fails obtain st2
    where run: "exec_stmts imp name name ?ss ?st1 = Raised (sibling_error name x e) st2"
      and post: "chain_post name xs ?st1 st2" and Qs: "\<forall>y \<in> set xs. Q y st2"
    using exec_chain_raises [of imp name xs x Q e ?st1 rest] by auto
  from pkg run have "exec_stmts imp name (spec_parent name sp) ?ss ?st1 =
      Raised (sibling_error name x e) st2"
    by (simp add: spec_parent_def)
  with body plain have "load_unlocked imp name sp st =
      Raised (sibling_error name x e) (dict_del name st2)"
    by (intro load_unlocked_raises) simp_all
  with name pre_st sp have "find_and_load imp F name st =
      Raised (sibling_error name x e) (dict_del name st2)"
    by (rule find_and_load_raises)
  moreover from post fresh name have "orphans name xs st (dict_del name st2)"
    by (intro orphans_after_chain) (simp_all add: untouched_self)
  moreover have "Q y (dict_del name st2)" if y: "y \<in> set xs" for y
  proof -
    from subs Qs y have "local_to (name @ [y]) (Q y)" "Q y st2" by simp_all
    then show ?thesis by (rule local_to_dict_del) simp
  qed
  ultimately show ?thesis by blast
qed

section \<open>Leaves and star imports\<close>

definition plain_leaf :: "finder \<Rightarrow> qualname \<Rightarrow> bool" where
  "plain_leaf F name \<longleftrightarrow>
     (case F name of
        None \<Rightarrow> False
      | Some sp \<Rightarrow> (case body sp of None \<Rightarrow> False | Some ss \<Rightarrow> list_all plain_stmt ss))"

lemma loads_plain_leaf:
  assumes "plain_leaf F name" and "name \<noteq> []"
  shows "loads (find_and_load imp F) name (\<lambda>_. True)"
proof -
  from assms(1) obtain sp ss where "F name = Some sp" "body sp = Some ss" "list_all plain_stmt ss"
    by (auto simp: plain_leaf_def split: option.splits)
  then have "loads (find_and_load imp F) name (binds_assigned name ss)"
    using assms(2) by (rule loads_leaf)
  then show ?thesis by (rule loads_weaken) simp
qed

lemma handle_fromlist_bound:
  "\<forall>x \<in> set xs. hasattr st base x \<Longrightarrow> handle_fromlist imp base xs st = Done st"
  by (induction xs) auto

lemma store_all_Done:
  assumes "cur \<noteq> base" and "\<forall>x \<in> set xs. \<not> reserved x \<and> hasattr st base x"
  shows "\<exists>st'. store_all cur base xs st = Done st'
     \<and> (\<forall>k. dict_has st' k \<longleftrightarrow> dict_has st k)
     \<and> (\<forall>m y. m \<noteq> cur \<longrightarrow> getattr st' m y = getattr st m y)
     \<and> (\<forall>y. getattr st' cur y =
           (if y \<in> set xs \<and> dict_has st cur then getattr st base y else getattr st cur y))"
  using assms(2)
proof (induction xs arbitrary: st)
  case Nil
  then show ?case by simp
next
  case (Cons x xs)
  from Cons.prems obtain v where v: "getattr st base x = Some v" and x: "\<not> reserved x"
    by (auto simp: hasattr_def)
  let ?st1 = "setattr cur x v st"
  from Cons.prems assms(1) have "\<forall>y \<in> set xs. \<not> reserved y \<and> hasattr ?st1 base y"
    by (simp add: hasattr_def)
  from Cons.IH [OF this] obtain st' where run: "store_all cur base xs ?st1 = Done st'"
    and keys: "\<forall>k. dict_has st' k \<longleftrightarrow> dict_has ?st1 k"
    and other: "\<forall>m y. m \<noteq> cur \<longrightarrow> getattr st' m y = getattr ?st1 m y"
    and own: "\<forall>y. getattr st' cur y =
      (if y \<in> set xs \<and> dict_has ?st1 cur then getattr ?st1 base y else getattr ?st1 cur y)"
    by blast
  from v x run have "store_all cur base (x # xs) st = Done st'"
    by simp
  moreover from keys have "\<forall>k. dict_has st' k \<longleftrightarrow> dict_has st k"
    by simp
  moreover from other have "\<forall>m y. m \<noteq> cur \<longrightarrow> getattr st' m y = getattr st m y"
    by simp
  moreover from own v assms(1) have "\<forall>y. getattr st' cur y =
      (if y \<in> set (x # xs) \<and> dict_has st cur then getattr st base y else getattr st cur y)"
    by auto
  ultimately show ?case by blast
qed

end
