(* ===== verification/Pkg_Behaviour.thy ===== *)
theory Pkg_Behaviour
  imports Pkg_Sources Py_Contracts
begin

text \<open>
  What happens when the package of the repository is imported. The statements
  are about any finder that serves the initialisers as they are written, so they
  hold for the checkout and for every tree that extends it; the witnesses
  instantiate them with the finder of the checkout, \<open>checkout_finder\<close>.
\<close>

section \<open>The finder of the checkout\<close>

definition checkout_finder :: finder where
  "checkout_finder = path_finder repo_files []"

lemmas checkout_eval =
  checkout_finder_def provides_package_def path_finder_def repo_files_def is_dir_def below_def

lemma checkout_src: "provides_package checkout_finder [''src''] src_init"
  by (simp add: checkout_eval)

lemma checkout_pricing: "provides_package checkout_finder [''src'', ''pricing''] pricing_init"
  by (simp add: checkout_eval)

lemma checkout_no_european: "checkout_finder [''src'', ''pricing'', ''european''] = None"
  by (simp add: checkout_eval)

section \<open>Importing the package as the repository stands\<close>

lemma fuel_at_least:
  assumes "k \<le> (fuel :: nat)"
  obtains n :: nat where "fuel = k + n"
proof -
  from assms have "fuel = k + (fuel - k)" by simp
  then show thesis by (rule that)
qed

lemma models_init_plain: "list_all plain_stmt models_init"
  by (simp add: models_init_def reserved_def)

text \<open>
  The two initialisers that import begin with plain statements (\<open>src_head\<close>,
  \<open>pricing_head\<close>) followed by the import of their first submodule.
\<close>

definition src_head :: "stmt list" where
  "src_head =
     [Expr (StrV src_doc), Assign ''__version__'' (StrV src_version),
      Assign ''__author__'' (StrV src_author), Assign ''__email__'' (StrV src_email)]"

definition pricing_head :: "stmt list" where
  "pricing_head = [Expr (StrV pricing_doc)]"

lemma src_init_first:
  "src_init = src_head @ from_dot_import ''pricing''
     # (map from_dot_import (tl src_imports) @ [Assign ''__all__'' (ListV (map StrV src_all))])"
  by (simp add: src_init_def src_head_def src_imports_def)

lemma pricing_init_first:
  "pricing_init = pricing_head @ from_dot_import ''european''
     # (map from_dot_import (tl pricing_imports) @ [Assign ''__all__'' (ListV (map StrV pricing_all))])"
  by (simp add: pricing_init_def pricing_head_def pricing_imports_def)

lemma heads_plain: "list_all plain_stmt src_head" "list_all plain_stmt pricing_head"
  by (simp_all add: src_head_def pricing_head_def reserved_def)

lemma first_imports_free:
  "\<not> reserved ''pricing''" "''pricing'' \<notin> set (bound_names src_head)"
  "\<not> reserved ''european''" "''european'' \<notin> set (bound_names pricing_head)"
  by (simp_all add: reserved_def src_head_def pricing_head_def)

lemma pricing_raises:
  assumes sq: "F name = Some sq" "is_package sq" "body sq = Some pricing_init"
    and european: "F (name @ [''european'']) = None" and name: "name \<noteq> []"
    and fresh: "\<not> dict_has st name" "\<not> dict_has st (name @ [''european''])"
  shows "load_unlocked (import_module (Suc n) F) name sq st =
    Raised (ImportError_cannot_import_name ''european'' name) st"
proof -
  let ?st1 = "assign_all name pricing_head (init_module name sq pricing_init st)"
  from name fresh(2) have "\<not> dict_has ?st1 (name @ [''european''])"
    by simp
  moreover from sq(2) heads_plain(2) have "dict_has ?st1 name" "hasattr ?st1 name ''__path__''"
    by (rule started_package)+
  ultimately have "import_module (Suc n) F (name @ [''european'']) ?st1 =
      Raised (ModuleNotFoundError (name @ [''european''])) ?st1"
    using european by (simp add: find_and_load_missing)
  with sq(2,3) heads_plain(2) first_imports_free(3,4) name fresh
  have "load_unlocked (import_module (Suc n) F) name sq st =
      Raised (sibling_error name ''european'' (ModuleNotFoundError (name @ [''european'']))) st"
    unfolding pricing_init_first by (intro load_unlocked_first_raises) simp_all
  then show ?thesis by simp
qed

lemma src_import_raises:
  assumes src: "provides_package F [''src''] src_init"
    and pricing: "provides_package F [''src'', ''pricing''] pricing_init"
    and european: "F [''src'', ''pricing'', ''european''] = None"
    and fresh: "\<not> dict_has st [''src'']" "\<not> dict_has st [''src'', ''pricing'']"
      "\<not> dict_has st [''src'', ''pricing'', ''european'']"
  shows "import_module (Suc (Suc (Suc n))) F [''src''] st =
    Raised (ImportError_cannot_import_name ''european'' [''src'', ''pricing'']) st"
proof -
  from src obtain sp where sp: "F [''src''] = Some sp" "is_package sp" "body sp = Some src_init"
    by (rule provides_packageE)
  from pricing obtain sq where sq: "F [''src'', ''pricing''] = Some sq" "is_package sq"
    "body sq = Some pricing_init"
    by (rule provides_packageE)
  let ?e = "ImportError_cannot_import_name ''european'' [''src'', ''pricing'']"
  let ?st1 = "assign_all [''src''] src_head (init_module [''src''] sp src_init st)"
  from sp(2) heads_plain(1) have parent: "dict_has ?st1 [''src'']"
    "hasattr ?st1 [''src''] ''__path__''"
    by (rule started_package)+
  from fresh(2,3) have absent: "\<not> dict_has ?st1 [''src'', ''pricing'']"
    "\<not> dict_has ?st1 ([''src'', ''pricing''] @ [''european''])"
    by simp_all
  with sq european have "load_unlocked (import_module (Suc n) F) [''src'', ''pricing''] sq ?st1 =
      Raised ?e ?st1"
    by (intro pricing_raises) simp_all
  with absent(1) parent sq(1)
  have "import_module (Suc (Suc n)) F ([''src''] @ [''pricing'']) ?st1 = Raised ?e ?st1"
    by (simp add: find_and_load_child_raises)
  with sp(2,3) heads_plain(1) first_imports_free(1,2) fresh(1)
  have "load_unlocked (import_module (Suc (Suc n)) F) [''src''] sp st =
      Raised (sibling_error [''src''] ''pricing'' ?e) st"
    unfolding src_init_first by (intro load_unlocked_first_raises) simp_all
  with sp(1) fresh(1) show ?thesis
    by (simp add: find_and_load_top)
qed

lemma toplevel_pricing_raises:
  assumes pricing: "provides_package F [''pricing''] pricing_init"
    and european: "F [''pricing'', ''european''] = None"
    and fresh: "\<not> dict_has st [''pricing'']" "\<not> dict_has st [''pricing'', ''european'']"
  shows "import_module (Suc (Suc n)) F [''pricing''] st =
    Raised (ImportError_cannot_import_name ''european'' [''pricing'']) st"
proof -
  from pricing obtain sq where sq: "F [''pricing''] = Some sq" "is_package sq"
    "body sq = Some pricing_init"
    by (rule provides_packageE)
  with european fresh
  have "load_unlocked (import_module (Suc n) F) [''pricing''] sq st =
      Raised (ImportError_cannot_import_name ''european'' [''pricing'']) st"
    by (intro pricing_raises) simp_all
  with sq(1) fresh(1) show ?thesis
    by (simp add: find_and_load_top)
qed

lemma toplevel_models_loads:
  assumes "provides_package F [''models''] models_init"
  shows "loads (import_module (Suc n) F) [''models''] (binds_assigned [''models''] models_init)"
proof -
  from assms obtain sm where "F [''models''] = Some sm" "body sm = Some models_init"
    by (rule provides_packageE)
  then show ?thesis
    unfolding import_module.simps using models_init_plain by (intro loads_leaf) auto
qed

text \<open>
  C1. Whenever the finder serves \<^verbatim>\<open>src/__init__.py\<close> and
  \<^verbatim>\<open>src/pricing/__init__.py\<close> as written and has no module
  \<^verbatim>\<open>src.pricing.european\<close>, importing \<^verbatim>\<open>src\<close> with any fuel of at least three
  raises \<^verbatim>\<open>ImportError\<close> for the name \<^verbatim>\<open>european\<close> and the module
  \<^verbatim>\<open>src.pricing\<close> (Python words it \<^verbatim>\<open>cannot import name 'european' from
  partially initialized module 'src.pricing'\<close>; the model keeps the name and
  the module of the message, not its wording), and \<^verbatim>\<open>sys.modules\<close> is left
  exactly as it was: neither \<^verbatim>\<open>src\<close> nor \<^verbatim>\<open>src.pricing\<close> stays registered.
\<close>

theorem src_import_fails_without_european:
  assumes "provides_package F [''src''] src_init"
    and "provides_package F [''src'', ''pricing''] pricing_init"
    and "F [''src'', ''pricing'', ''european''] = None"
    and "\<not> dict_has st [''src'']" and "\<not> dict_has st [''src'', ''pricing'']"
    and "\<not> dict_has st [''src'', ''pricing'', ''european'']"
    and fuel: "3 \<le> fuel"
  shows "import_module fuel F [''src''] st =
    Raised (ImportError_cannot_import_name ''european'' [''src'', ''pricing'']) st"
proof -
  from fuel obtain n where "fuel = 3 + n"
    by (rule fuel_at_least)
  then have "fuel = Suc (Suc (Suc n))" by simp
  moreover have "import_module (Suc (Suc (Suc n))) F [''src''] st =
      Raised (ImportError_cannot_import_name ''european'' [''src'', ''pricing'']) st"
    using assms(1-6) by (rule src_import_raises)
  ultimately show ?thesis by (simp only:)
qed

theorem src_import_fails_without_european_witness:
  "import_module 3 checkout_finder [''src''] [] =
     Raised (ImportError_cannot_import_name ''european'' [''src'', ''pricing'']) []"
  using src_import_fails_without_european [of checkout_finder "[]" 3]
  by (simp add: checkout_src checkout_pricing checkout_no_european)

text \<open>
  C2. Under the same conditions no submodule of \<^verbatim>\<open>src\<close> can be imported
  either, not even \<^verbatim>\<open>src.models\<close>, whose own initialiser imports nothing: the
  import system initialises the parent package first, and the parent fails. The
  error is the one of \<^verbatim>\<open>src\<close> and the module table is unchanged.
\<close>

theorem submodule_import_fails_with_parent:
  assumes "provides_package F [''src''] src_init"
    and "provides_package F [''src'', ''pricing''] pricing_init"
    and "F [''src'', ''pricing'', ''european''] = None"
    and "\<not> dict_has st [''src'']" and "\<not> dict_has st [''src'', ''pricing'']"
    and "\<not> dict_has st [''src'', ''pricing'', ''european'']"
    and sub: "\<not> dict_has st [''src'', x]" and fuel: "4 \<le> fuel"
  shows "import_module fuel F [''src'', x] st =
    Raised (ImportError_cannot_import_name ''european'' [''src'', ''pricing'']) st"
proof -
  from fuel obtain n where "fuel = 4 + n"
    by (rule fuel_at_least)
  then have fuel': "fuel = Suc (Suc (Suc (Suc n)))" by simp
  let ?imp = "import_module (Suc (Suc (Suc n))) F"
  have "?imp [''src''] st =
      Raised (ImportError_cannot_import_name ''european'' [''src'', ''pricing'']) st"
    using assms(1-6) by (rule src_import_raises)
  with sub assms(4) have "find_and_load ?imp F [''src'', x] st =
      Raised (ImportError_cannot_import_name ''european'' [''src'', ''pricing'']) st"
    by (simp add: find_and_load_def del: import_module.simps)
  then show ?thesis
    unfolding fuel' by (simp only: import_module.simps)
qed

theorem submodule_import_fails_with_parent_witness:
  "import_module 4 checkout_finder [''src'', ''models''] [] =
     Raised (ImportError_cannot_import_name ''european'' [''src'', ''pricing'']) []"
  using submodule_import_fails_with_parent [of checkout_finder "[]" "''models''" 4]
  by (simp add: checkout_src checkout_pricing checkout_no_european)

section \<open>Importing the package once its submodules exist\<close>

text \<open>
  The initialisers name eleven submodules, of which the checkout has two
  (\<^verbatim>\<open>src.pricing\<close> and \<^verbatim>\<open>src.models\<close>). \<open>complete_tree F\<close> describes a finder
  that serves the three initialisers as written and, for each of the other nine
  names, a module whose body is a sequence of docstrings and assignments. \<open>pricing_loaded\<close> and
  \<open>src_loaded\<close> are what the import of \<^verbatim>\<open>src.pricing\<close> and of \<^verbatim>\<open>src\<close> then
  establish, as instances of the package contract \<open>pkg_post\<close>.
\<close>

definition complete_tree :: "finder \<Rightarrow> bool" where
  "complete_tree F \<longleftrightarrow>
     provides_package F [''src''] src_init \<and>
     provides_package F [''src'', ''pricing''] pricing_init \<and>
     provides_package F [''src'', ''models''] models_init \<and>
     list_all (\<lambda>x. plain_leaf F [''src'', ''pricing'', x]) pricing_imports \<and>
     list_all (\<lambda>x. plain_leaf F [''src'', x]) (removeAll ''pricing'' src_imports)"

definition pricing_loaded :: "sys_modules \<Rightarrow> bool" where
  "pricing_loaded =
     pkg_post [''src'', ''pricing''] [Expr (StrV pricing_doc)] pricing_imports
       [Assign ''__all__'' (ListV (map StrV pricing_all))] (\<lambda>_ _. True)"

definition src_sub :: "string \<Rightarrow> sys_modules \<Rightarrow> bool" where
  "src_sub x =
     (if x = ''pricing'' then pricing_loaded
      else if x = ''models'' then binds_assigned [''src'', ''models''] models_init
      else (\<lambda>_. True))"

definition src_loaded :: "sys_modules \<Rightarrow> bool" where
  "src_loaded =
     pkg_post [''src'']
       [Expr (StrV src_doc), Assign ''__version__'' (StrV src_version),
        Assign ''__author__'' (StrV src_author), Assign ''__email__'' (StrV src_email)]
       src_imports [Assign ''__all__'' (ListV (map StrV src_all))] src_sub"

lemma local_to_pricing_loaded: "local_to [''src'', ''pricing''] pricing_loaded"
  unfolding pricing_loaded_def by (rule local_to_pkg_post) simp

lemma local_to_src_sub: "local_to [''src'', x] (src_sub x)"
  using local_to_pricing_loaded by (simp add: src_sub_def)

lemma pricing_package_loads:
  assumes "provides_package F [''src'', ''pricing''] pricing_init"
    and "list_all (\<lambda>x. plain_leaf F [''src'', ''pricing'', x]) pricing_imports"
  shows "loads (import_module (Suc (Suc n)) F) [''src'', ''pricing''] pricing_loaded"
proof -
  from assms(1) obtain sp where sp: "F [''src'', ''pricing''] = Some sp" "is_package sp"
    "body sp = Some pricing_init"
    by (rule provides_packageE)
  from assms(2) have "\<forall>x \<in> set pricing_imports.
      loads (import_module (Suc n) F) ([''src'', ''pricing''] @ [x]) (\<lambda>_. True)
      \<and> local_to ([''src'', ''pricing''] @ [x]) (\<lambda>_. True)"
    by (auto simp: list_all_iff intro: loads_plain_leaf)
  with sp show ?thesis
    unfolding pricing_loaded_def import_module.simps(2) [of "Suc n"] pricing_init_def
    by (intro loads_package) (simp_all add: reserved_def pricing_imports_def)
qed

lemma pricing_loads:
  assumes "complete_tree F"
  shows "loads (import_module (Suc (Suc n)) F) [''src'', ''pricing''] pricing_loaded"
  using assms by (intro pricing_package_loads) (simp_all add: complete_tree_def)

lemma src_loads:
  assumes "complete_tree F"
  shows "loads (import_module (Suc (Suc (Suc n))) F) [''src''] src_loaded"
proof -
  from assms obtain sp where sp: "F [''src''] = Some sp" "is_package sp" "body sp = Some src_init"
    by (auto simp: complete_tree_def elim: provides_packageE)
  have "loads (import_module (Suc (Suc n)) F) ([''src''] @ [x]) (src_sub x)"
    if "x \<in> set src_imports" for x
  proof -
    consider "x = ''pricing''" | "x = ''models''" | "x \<noteq> ''pricing''" "x \<noteq> ''models''"
      by blast
    then show ?thesis
    proof cases
      case 1
      with pricing_loads [OF assms, of n] show ?thesis by (simp add: src_sub_def)
    next
      case 2
      from assms obtain sm where "F [''src'', ''models''] = Some sm" "body sm = Some models_init"
        by (auto simp: complete_tree_def elim: provides_packageE)
      then have "loads (find_and_load (import_module (Suc n) F) F) [''src'', ''models'']
          (binds_assigned [''src'', ''models''] models_init)"
        using models_init_plain by (intro loads_leaf) auto
      with 2 show ?thesis by (simp add: src_sub_def)
    next
      case 3
      with assms that have "plain_leaf F [''src'', x]"
        by (auto simp: complete_tree_def list_all_iff)
      then have "loads (find_and_load (import_module (Suc n) F) F) [''src'', x] (\<lambda>_. True)"
        by (rule loads_plain_leaf) simp
      with 3 show ?thesis by (simp add: src_sub_def)
    qed
  qed
  then have "\<forall>x \<in> set src_imports.
      loads (import_module (Suc (Suc n)) F) ([''src''] @ [x]) (src_sub x)
      \<and> local_to ([''src''] @ [x]) (src_sub x)"
    using local_to_src_sub by simp
  with sp show ?thesis
    unfolding src_loaded_def import_module.simps(2) [of "Suc (Suc n)"] src_init_def
    by (intro loads_package) (simp_all add: reserved_def src_imports_def)
qed


lemma src_import_complete:
  assumes tree: "complete_tree F" and fresh: "untouched [''src''] st" and fuel: "3 \<le> fuel"
  obtains st' where "import_module fuel F [''src''] st = Done st'"
    and "same_outside [''src''] st st'" and "dict_has st' [''src'']" and "src_loaded st'"
proof -
  from fuel obtain n where "fuel = 3 + n"
    by (rule fuel_at_least)
  then have n: "fuel = Suc (Suc (Suc n))" by simp
  from fresh have "mod_pre [''src''] st"
    by (simp add: mod_pre_def)
  with src_loads [OF tree, of n] obtain st' where
    "import_module (Suc (Suc (Suc n))) F [''src''] st = Done st'"
    "mod_post [''src''] st st'" "src_loaded st'"
    by (rule loadsE)
  with n that show ?thesis
    by (simp add: mod_post_def)
qed

lemma src_all_imported:
  "set src_all \<subseteq> set src_imports" "''__all__'' \<notin> set src_all"
  "list_all (\<lambda>x. \<not> reserved x) src_all"
  by (simp_all add: src_all_def src_imports_def reserved_def)

lemma pricing_all_imported:
  "set pricing_all \<subseteq> set pricing_imports" "''__all__'' \<notin> set pricing_all"
  by (simp_all add: pricing_all_def pricing_imports_def)

lemma src_loaded_exports:
  assumes "src_loaded st" and "x \<in> set src_all"
  shows "dict_has st [''src'', x]" and "getattr st [''src''] x = Some (ModuleV [''src'', x])"
proof -
  from assms(2) src_all_imported(1,2) have x: "x \<in> set src_imports" "x \<noteq> ''__all__''"
    by blast+
  from assms(1) pkg_post_sub(2) [OF _ x(1)] show "dict_has st [''src'', x]"
    unfolding src_loaded_def by fastforce
  from assms(1) x(2) pkg_post_sub(3) [OF _ x(1)]
  show "getattr st [''src''] x = Some (ModuleV [''src'', x])"
    unfolding src_loaded_def by fastforce
qed

lemma src_imports_not_dunder:
  "''__version__'' \<notin> set src_imports" "''__author__'' \<notin> set src_imports"
  "''__email__'' \<notin> set src_imports" "''__all__'' \<notin> set src_imports"
  by (simp_all add: src_imports_def)

lemma src_assigned:
  "assigned ''__all__'' src_init = Some (ListV (map StrV src_all))"
  "assigned ''__version__'' src_init = Some (StrV src_version)"
  "assigned ''__author__'' src_init = Some (StrV src_author)"
  "assigned ''__email__'' src_init = Some (StrV src_email)"
  by (simp_all add: src_init_def assigned_append src_imports_not_dunder)

lemma pricing_assigned: "assigned ''__all__'' pricing_init = Some (ListV (map StrV pricing_all))"
  by (simp add: pricing_init_def assigned_append)

lemma models_assigned: "assigned ''__all__'' models_init = Some (ListV (map StrV models_all))"
  by (simp add: models_init_def)

lemma src_loaded_binds: "src_loaded st \<Longrightarrow> binds_assigned [''src''] src_init st"
  by (simp add: src_loaded_def pkg_post_def src_init_def)

lemma src_loaded_attrs:
  assumes "src_loaded st"
  shows "getattr st [''src''] ''__all__'' = Some (ListV (map StrV src_all))"
    and "getattr st [''src''] ''__version__'' = Some (StrV src_version)"
    and "getattr st [''src''] ''__author__'' = Some (StrV src_author)"
    and "getattr st [''src''] ''__email__'' = Some (StrV src_email)"
  using src_loaded_binds [OF assms] src_assigned by (simp_all add: binds_assigned_def)

lemma src_loaded_pricing: "src_loaded st \<Longrightarrow> pricing_loaded st"
  unfolding src_loaded_def
  by (drule pkg_post_sub(1) [where x = "''pricing''"]) (simp_all add: src_imports_def src_sub_def)

lemma src_loaded_models:
  assumes "src_loaded st"
  shows "getattr st [''src'', ''models''] ''__all__'' = Some (ListV (map StrV models_all))"
proof -
  have "''models'' \<in> set src_imports"
    by (simp add: src_imports_def)
  with assms have "src_sub ''models'' st"
    unfolding src_loaded_def by (rule pkg_post_sub)
  with models_assigned show ?thesis
    by (simp add: src_sub_def binds_assigned_def)
qed

lemma pricing_loaded_exports:
  assumes "pricing_loaded st" and "x \<in> set pricing_all"
  shows "dict_has st [''src'', ''pricing'', x]"
    and "getattr st [''src'', ''pricing''] x = Some (ModuleV [''src'', ''pricing'', x])"
proof -
  from assms(2) pricing_all_imported have x: "x \<in> set pricing_imports" "x \<noteq> ''__all__''"
    by blast+
  from assms(1) pkg_post_sub(2) [OF _ x(1)] show "dict_has st [''src'', ''pricing'', x]"
    unfolding pricing_loaded_def by fastforce
  from assms(1) x(2) pkg_post_sub(3) [OF _ x(1)]
  show "getattr st [''src'', ''pricing''] x = Some (ModuleV [''src'', ''pricing'', x])"
    unfolding pricing_loaded_def by fastforce
qed

lemma pricing_loaded_all:
  assumes "pricing_loaded st"
  shows "getattr st [''src'', ''pricing''] ''__all__'' = Some (ListV (map StrV pricing_all))"
proof -
  from assms have "binds_assigned [''src'', ''pricing''] pricing_init st"
    by (simp add: pricing_loaded_def pkg_post_def pricing_init_def)
  with pricing_assigned show ?thesis
    by (simp add: binds_assigned_def)
qed

section \<open>A completed tree\<close>

text \<open>
  \<open>completed_files\<close> adds to the checkout the nine modules it lacks, each with an
  empty body: the five submodules of \<^verbatim>\<open>src.pricing\<close> as files, the four missing
  subpackages of \<^verbatim>\<open>src\<close> as directories with an empty initialiser. It is the
  smallest tree on which the initialisers can run to the end, and the input of
  the witnesses below.
\<close>

definition completed_files :: repo where
  "completed_files =
     repo_files
     @ map (\<lambda>x. ([''src'', ''pricing'', x @ ''.py''], PySource [])) pricing_imports
     @ map (\<lambda>x. ([''src'', x, ''__init__.py''], PySource []))
         (filter (\<lambda>x. x \<notin> {''pricing'', ''models''}) src_imports)"

definition completed_finder :: finder where
  "completed_finder = path_finder completed_files []"

lemma completed_tree: "complete_tree completed_finder"
  by (simp add: complete_tree_def completed_finder_def completed_files_def provides_package_def
      plain_leaf_def path_finder_def repo_files_def is_dir_def below_def pricing_imports_def
      models_init_plain
      src_imports_def)

text \<open>
  C3. On a complete tree, that is one that serves the three initialisers as
  written and has every submodule they import, each of the nine added
  submodules with a body of docstrings and assignments only, importing
  \<^verbatim>\<open>src\<close> into a state with nothing registered at or below \<^verbatim>\<open>src\<close>
  succeeds with any fuel of at least three. Afterwards \<^verbatim>\<open>src\<close> is registered,
  every name listed in its \<^verbatim>\<open>__all__\<close> is a registered submodule bound as an
  attribute of the package, \<^verbatim>\<open>__all__\<close> holds the list written in the source,
  and nothing outside the subtree of \<^verbatim>\<open>src\<close> has changed.
\<close>

theorem src_import_binds_exports:
  assumes "complete_tree F" and "untouched [''src''] st" and "3 \<le> fuel"
  shows "\<exists>st'. import_module fuel F [''src''] st = Done st'
     \<and> same_outside [''src''] st st' \<and> dict_has st' [''src'']
     \<and> (\<forall>x \<in> set src_all.
           dict_has st' [''src'', x] \<and> getattr st' [''src''] x = Some (ModuleV [''src'', x]))
     \<and> getattr st' [''src''] ''__all__'' = Some (ListV (map StrV src_all))"
proof -
  from assms obtain st' where "import_module fuel F [''src''] st = Done st'"
    "same_outside [''src''] st st'" "dict_has st' [''src'']" "src_loaded st'"
    by (rule src_import_complete)
  then show ?thesis
    by (auto simp: src_loaded_exports src_loaded_attrs)
qed

theorem src_import_binds_exports_witness:
  "\<exists>st'. import_module 3 completed_finder [''src''] [] = Done st'
     \<and> same_outside [''src''] [] st' \<and> dict_has st' [''src'']
     \<and> (\<forall>x \<in> set src_all.
           dict_has st' [''src'', x] \<and> getattr st' [''src''] x = Some (ModuleV [''src'', x]))
     \<and> getattr st' [''src''] ''__all__'' = Some (ListV (map StrV src_all))"
  using src_import_binds_exports [of completed_finder "[]" 3] by (simp add: completed_tree)

text \<open>
  C4. Under the same conditions the import of \<^verbatim>\<open>src\<close> also initialises
  \<^verbatim>\<open>src.pricing\<close>: the package is bound as \<^verbatim>\<open>src.pricing\<close>, each of the five
  names of its \<^verbatim>\<open>__all__\<close> is a registered submodule bound in it, and its
  \<^verbatim>\<open>__all__\<close> holds the list written in \<^verbatim>\<open>src/pricing/__init__.py\<close>.
\<close>

theorem src_import_initialises_pricing:
  assumes "complete_tree F" and "untouched [''src''] st" and "3 \<le> fuel"
  shows "\<exists>st'. import_module fuel F [''src''] st = Done st'
     \<and> getattr st' [''src''] ''pricing'' = Some (ModuleV [''src'', ''pricing''])
     \<and> (\<forall>x \<in> set pricing_all.
           dict_has st' [''src'', ''pricing'', x]
           \<and> getattr st' [''src'', ''pricing''] x = Some (ModuleV [''src'', ''pricing'', x]))
     \<and> getattr st' [''src'', ''pricing''] ''__all__'' = Some (ListV (map StrV pricing_all))"
proof -
  from assms obtain st' where run: "import_module fuel F [''src''] st = Done st'"
    and loaded: "src_loaded st'"
    by (rule src_import_complete)
  from loaded have "getattr st' [''src''] ''pricing'' = Some (ModuleV [''src'', ''pricing''])"
    by (rule src_loaded_exports) (simp add: src_all_def)
  with run src_loaded_pricing [OF loaded] show ?thesis
    by (auto simp: pricing_loaded_exports pricing_loaded_all)
qed

theorem src_import_initialises_pricing_witness:
  "\<exists>st'. import_module 3 completed_finder [''src''] [] = Done st'
     \<and> getattr st' [''src''] ''pricing'' = Some (ModuleV [''src'', ''pricing''])
     \<and> (\<forall>x \<in> set pricing_all.
           dict_has st' [''src'', ''pricing'', x]
           \<and> getattr st' [''src'', ''pricing''] x = Some (ModuleV [''src'', ''pricing'', x]))
     \<and> getattr st' [''src'', ''pricing''] ''__all__'' = Some (ListV (map StrV pricing_all))"
  using src_import_initialises_pricing [of completed_finder "[]" 3] by (simp add: completed_tree)

text \<open>
  C5. Under the same conditions the imported package carries the metadata
  written in \<^verbatim>\<open>src/__init__.py\<close>: \<^verbatim>\<open>__version__\<close>, \<^verbatim>\<open>__author__\<close> and
  \<^verbatim>\<open>__email__\<close> are bound to the three string literals, and
  \<^verbatim>\<open>src.models.__all__\<close> is the empty list of \<^verbatim>\<open>src/models/__init__.py\<close>.
\<close>

theorem src_import_sets_metadata:
  assumes "complete_tree F" and "untouched [''src''] st" and "3 \<le> fuel"
  shows "\<exists>st'. import_module fuel F [''src''] st = Done st'
     \<and> getattr st' [''src''] ''__version__'' = Some (StrV src_version)
     \<and> getattr st' [''src''] ''__author__'' = Some (StrV src_author)
     \<and> getattr st' [''src''] ''__email__'' = Some (StrV src_email)
     \<and> getattr st' [''src'', ''models''] ''__all__'' = Some (ListV (map StrV models_all))"
proof -
  from assms obtain st' where "import_module fuel F [''src''] st = Done st'" "src_loaded st'"
    by (rule src_import_complete)
  then show ?thesis
    by (simp add: src_loaded_attrs src_loaded_models)
qed

theorem src_import_sets_metadata_witness:
  "\<exists>st'. import_module 3 completed_finder [''src''] [] = Done st'
     \<and> getattr st' [''src''] ''__version__'' = Some (StrV src_version)
     \<and> getattr st' [''src''] ''__author__'' = Some (StrV src_author)
     \<and> getattr st' [''src''] ''__email__'' = Some (StrV src_email)
     \<and> getattr st' [''src'', ''models''] ''__all__'' = Some (ListV (map StrV models_all))"
  using src_import_sets_metadata [of completed_finder "[]" 3] by (simp add: completed_tree)

text \<open>
  C6. On a complete tree, a main module that runs \<^verbatim>\<open>from src import *\<close> ends
  with exactly the names of \<^verbatim>\<open>src.__all__\<close> added to its namespace, each bound
  to the submodule of that name; every other name of the namespace is as it was
  at start-up.
\<close>

theorem star_import_binds_exports:
  assumes tree: "complete_tree F" and fresh: "untouched [''src''] st" and fuel: "3 \<le> fuel"
  shows "\<exists>st'. run_main fuel F [FromImportStar 0 [''src'']] st = Done st'
     \<and> (\<forall>y. getattr st' [''__main__''] y =
           (if y \<in> set src_all then Some (ModuleV [''src'', y]) else dict_get main_namespace y))"
proof -
  let ?st0 = "dict_set [''__main__''] main_namespace st"
  from fresh have "untouched [''src''] ?st0"
    by (rule untouched_dict_set) simp
  with tree obtain st1 where run: "import_module fuel F [''src''] ?st0 = Done st1"
    and frame: "same_outside [''src''] ?st0 st1" and loaded: "src_loaded st1"
    using fuel by (rule src_import_complete)
  from loaded have bound: "\<forall>x \<in> set src_all. \<not> reserved x \<and> hasattr st1 [''src''] x"
    using src_all_imported(3) by (simp add: src_loaded_exports hasattr_def list_all_iff)
  then have "handle_fromlist (import_module fuel F) [''src''] src_all st1 = Done st1"
    by (simp add: handle_fromlist_bound)
  with run loaded have star: "exec_star (import_module fuel F) [''__main__''] [''src''] ?st0 =
      store_all [''__main__''] [''src''] src_all st1"
    by (simp add: exec_star_def src_loaded_attrs del: str_items.simps)
  have "[''__main__''] \<noteq> [''src'']" by simp
  from store_all_Done [OF this bound] obtain st' where
    "store_all [''__main__''] [''src''] src_all st1 = Done st'"
    and own: "\<forall>y. getattr st' [''__main__''] y =
      (if y \<in> set src_all \<and> dict_has st1 [''__main__''] then getattr st1 [''src''] y
       else getattr st1 [''__main__''] y)"
    by blast
  moreover from frame have "dict_has st1 [''__main__'']"
    by (rule same_outside_grow) simp
  moreover from frame have "getattr st1 [''__main__''] y = dict_get main_namespace y" for y
    by (simp add: same_outside_elsewhere)
  ultimately show ?thesis
    using star loaded by (simp add: run_main_def resolve_name_def src_loaded_exports)
qed

theorem star_import_binds_exports_witness:
  "\<exists>st'. run_main 3 completed_finder [FromImportStar 0 [''src'']] [] = Done st'
     \<and> (\<forall>y. getattr st' [''__main__''] y =
           (if y \<in> set src_all then Some (ModuleV [''src'', y]) else dict_get main_namespace y))"
  using star_import_binds_exports [of completed_finder "[]" 3] by (simp add: completed_tree)


section \<open>Importing the package when a later submodule is missing\<close>

text \<open>
  The checkout fails on the first import of the first import. A tree that has
  \<^verbatim>\<open>src.pricing\<close> complete fails later, at the first submodule of \<^verbatim>\<open>src\<close> that
  is absent. \<open>imported_before x\<close> are the submodules that \<^verbatim>\<open>src/__init__.py\<close>
  imports before \<open>x\<close>; \<open>loadable F y\<close> says that the finder has what the import
  of \<^verbatim>\<open>src.y\<close> needs; \<open>tree_up_to F x\<close> describes a finder that serves
  \<^verbatim>\<open>src/__init__.py\<close> as written, has every submodule imported before \<open>x\<close>, and
  does not have \<open>x\<close>.
\<close>

definition imported_before :: "string \<Rightarrow> string list" where
  "imported_before x = takeWhile (\<lambda>y. y \<noteq> x) src_imports"

definition loadable :: "finder \<Rightarrow> string \<Rightarrow> bool" where
  "loadable F y \<longleftrightarrow>
     (if y = ''pricing''
      then provides_package F [''src'', ''pricing''] pricing_init
        \<and> list_all (\<lambda>z. plain_leaf F [''src'', ''pricing'', z]) pricing_imports
      else plain_leaf F [''src'', y])"

definition tree_up_to :: "finder \<Rightarrow> string \<Rightarrow> bool" where
  "tree_up_to F x \<longleftrightarrow>
     provides_package F [''src''] src_init \<and> list_all (loadable F) (imported_before x)
     \<and> F [''src'', x] = None"

definition sub_loaded :: "string \<Rightarrow> sys_modules \<Rightarrow> bool" where
  "sub_loaded y = (if y = ''pricing'' then pricing_loaded else (\<lambda>_. True))"

lemma local_to_sub_loaded: "local_to [''src'', y] (sub_loaded y)"
  using local_to_pricing_loaded by (simp add: sub_loaded_def)

lemma loadable_loads:
  assumes "loadable F y"
  shows "loads (import_module (Suc (Suc n)) F) [''src'', y] (sub_loaded y)"
proof (cases "y = ''pricing''")
  case True
  with assms show ?thesis
    by (simp add: loadable_def sub_loaded_def pricing_package_loads del: import_module.simps)
next
  case False
  with assms have "plain_leaf F [''src'', y]"
    by (simp add: loadable_def)
  then have "loads (find_and_load (import_module (Suc n) F) F) [''src'', y] (\<lambda>_. True)"
    by (rule loads_plain_leaf) simp
  with False show ?thesis by (simp add: sub_loaded_def)
qed

lemma src_imports_names:
  "distinct src_imports"
  "list_all (\<lambda>y. \<not> reserved y \<and> y \<noteq> ''__doc__'' \<and> y \<notin> set (bound_names src_head)) src_imports"
  by (simp_all add: src_imports_def reserved_def src_head_def)

lemma src_init_split:
  "src_init = src_head @ map from_dot_import src_imports
     @ [Assign ''__all__'' (ListV (map StrV src_all))]"
  by (simp add: src_init_def src_head_def)

lemma src_fails_at:
  assumes x: "x \<in> set src_imports" and tree: "tree_up_to F x" and fresh: "untouched [''src''] st"
  shows "\<exists>st'. import_module (Suc (Suc (Suc n))) F [''src''] st =
       Raised (ImportError_cannot_import_name x [''src'']) st'
     \<and> orphans [''src''] (imported_before x) st st'
     \<and> (\<forall>y \<in> set (imported_before x). sub_loaded y st')"
proof -
  let ?imp = "import_module (Suc (Suc n)) F"
  let ?post = "[Assign ''__all__'' (ListV (map StrV src_all))]"
  from x obtain rest where split: "src_imports = imported_before x @ x # rest"
    unfolding imported_before_def by (rule split_at_first)
  from tree obtain sp where sp: "F [''src''] = Some sp" "is_package sp" "body sp = Some src_init"
    by (auto simp: tree_up_to_def elim: provides_packageE)
  from sp(3) have body: "body sp = Some (src_head @ map from_dot_import (imported_before x)
      @ from_dot_import x # (map from_dot_import rest @ ?post))"
    unfolding src_init_split by (subst (asm) split) simp
  from src_imports_names(1) have dist: "distinct (imported_before x @ [x])"
    by (subst (asm) split) simp
  from src_imports_names(2) have names: "\<forall>y \<in> set (imported_before x @ [x]).
      \<not> reserved y \<and> y \<noteq> ''__doc__'' \<and> y \<notin> set (bound_names src_head)"
    by (subst (asm) split) (simp add: list_all_iff)
  have "loads ?imp [''src'', y] (sub_loaded y)" if "y \<in> set (imported_before x)" for y
    using tree that by (intro loadable_loads) (simp add: tree_up_to_def list_all_iff)
  with local_to_sub_loaded have subs: "\<forall>y \<in> set (imported_before x).
      loads ?imp ([''src''] @ [y]) (sub_loaded y) \<and> local_to ([''src''] @ [y]) (sub_loaded y)"
    by simp
  from tree have "fails_cleanly ?imp ([''src''] @ [x]) (ModuleNotFoundError ([''src''] @ [x]))"
    unfolding import_module.simps by (intro fails_cleanly_missing) (simp_all add: tree_up_to_def)
  moreover from fresh have "mod_pre [''src''] st"
    by (simp add: mod_pre_def)
  ultimately have "\<exists>st'. find_and_load ?imp F [''src''] st =
      Raised (sibling_error [''src''] x (ModuleNotFoundError ([''src''] @ [x]))) st'
      \<and> orphans [''src''] (imported_before x) st st'
      \<and> (\<forall>y \<in> set (imported_before x). sub_loaded y st')"
    using sp(1,2) body heads_plain(1) dist names subs
    by (intro package_raises_after) auto
  then show ?thesis by (simp add: sibling_error_def)
qed

text \<open>
  \<open>partial_files\<close> adds to the checkout the five submodules of \<^verbatim>\<open>src.pricing\<close>,
  each with an empty body, and nothing else: \<^verbatim>\<open>src.pricing\<close> and \<^verbatim>\<open>src.models\<close>
  can be imported, \<^verbatim>\<open>src.variance_reduction\<close> is the first submodule that is
  missing.
\<close>

definition partial_files :: repo where
  "partial_files =
     repo_files @ map (\<lambda>x. ([''src'', ''pricing'', x @ ''.py''], PySource [])) pricing_imports"

definition partial_finder :: finder where
  "partial_finder = path_finder partial_files []"

lemma partial_tree: "tree_up_to partial_finder ''variance_reduction''"
  by (simp add: tree_up_to_def imported_before_def loadable_def partial_finder_def
      partial_files_def provides_package_def plain_leaf_def path_finder_def repo_files_def
      is_dir_def below_def pricing_imports_def src_imports_def models_init_plain)

text \<open>
  C12. A failed import of \<^verbatim>\<open>src\<close> reports the first submodule that is missing
  and leaves the earlier ones behind. On a tree that serves
  \<^verbatim>\<open>src/__init__.py\<close> as written, has every submodule that it imports before
  \<open>x\<close> (with \<^verbatim>\<open>src.pricing\<close> complete, the others with plain bodies) and has no
  module \<^verbatim>\<open>src.x\<close>, importing \<^verbatim>\<open>src\<close> raises \<^verbatim>\<open>ImportError\<close> for the name
  \<open>x\<close> and the module \<^verbatim>\<open>src\<close>. Afterwards \<^verbatim>\<open>src\<close> is not registered, but every
  submodule imported before \<open>x\<close> still is, and so are the submodules of
  \<^verbatim>\<open>src.pricing\<close> if it was among them; no module registered before is lost and no
  attribute of a module outside \<^verbatim>\<open>src\<close> has changed.
\<close>

theorem src_import_reports_first_missing:
  assumes "x \<in> set src_imports" and "tree_up_to F x" and "untouched [''src''] st"
    and fuel: "3 \<le> fuel"
  shows "\<exists>st'. import_module fuel F [''src''] st =
       Raised (ImportError_cannot_import_name x [''src'']) st'
     \<and> \<not> dict_has st' [''src'']
     \<and> (\<forall>y \<in> set (imported_before x). dict_has st' [''src'', y])
     \<and> (''pricing'' \<in> set (imported_before x) \<longrightarrow>
          (\<forall>z \<in> set pricing_all. dict_has st' [''src'', ''pricing'', z]))
     \<and> (\<forall>k. dict_has st k \<longrightarrow> dict_has st' k)
     \<and> (\<forall>m y. \<not> prefix [''src''] m \<longrightarrow> getattr st' m y = getattr st m y)"
proof -
  from fuel obtain n where "fuel = 3 + n"
    by (rule fuel_at_least)
  then have fuel': "fuel = Suc (Suc (Suc n))" by simp
  from assms(1-3) obtain st' where
    run: "import_module (Suc (Suc (Suc n))) F [''src''] st =
      Raised (ImportError_cannot_import_name x [''src'']) st'"
    and left: "orphans [''src''] (imported_before x) st st'"
    and subs: "\<forall>y \<in> set (imported_before x). sub_loaded y st'"
    using src_fails_at [of x F st n] by blast
  have "dict_has st' [''src'', ''pricing'', z]"
    if "''pricing'' \<in> set (imported_before x)" "z \<in> set pricing_all" for z
  proof -
    from subs that(1) have "pricing_loaded st'"
      by (auto simp: sub_loaded_def)
    then show ?thesis using that(2) by (rule pricing_loaded_exports)
  qed
  with run left show ?thesis
    unfolding fuel' orphans_def by auto
qed

theorem src_import_reports_first_missing_witness:
  "\<exists>st'. import_module 3 partial_finder [''src''] [] =
       Raised (ImportError_cannot_import_name ''variance_reduction'' [''src'']) st'
     \<and> \<not> dict_has st' [''src'']
     \<and> dict_has st' [''src'', ''pricing''] \<and> dict_has st' [''src'', ''models'']
     \<and> (\<forall>z \<in> set pricing_all. dict_has st' [''src'', ''pricing'', z])"
  using src_import_reports_first_missing [of "''variance_reduction''" partial_finder "[]" 3]
  by (simp add: partial_tree imported_before_def src_imports_def) blast

end
