(* ===== verification/Py_Fuel.thy ===== *)
theory Py_Fuel
  imports Py_Import
begin

text \<open>
  The fuel of \<open>import_module\<close> bounds the depth of nested imports and nothing
  else. \<open>extends imp imp'\<close> says that \<open>imp'\<close> agrees with \<open>imp\<close> wherever \<open>imp\<close>
  does not run out of fuel. Every operation of the import system is monotone in
  its importer with respect to \<open>extends\<close>, because none of them inspects a
  \<open>Stuck\<close> outcome: it is passed on unchanged. Hence a run that ends with a
  result or an exception ends the same way with any larger fuel
  (\<open>import_module_more_fuel\<close>).
\<close>

definition extends :: "importer \<Rightarrow> importer \<Rightarrow> bool" where
  "extends imp imp' \<longleftrightarrow> (\<forall>name st. imp name st \<noteq> Stuck OutOfFuel \<longrightarrow> imp' name st = imp name st)"

lemma extends_refl [simp]: "extends imp imp"
  by (simp add: extends_def)

lemma extends_trans: "extends a b \<Longrightarrow> extends b c \<Longrightarrow> extends a c"
  unfolding extends_def by metis

lemma extends_Done: "extends imp imp' \<Longrightarrow> imp name st = Done st' \<Longrightarrow> imp' name st = Done st'"
  by (auto simp: extends_def)

lemma extends_Raised:
  "extends imp imp' \<Longrightarrow> imp name st = Raised e st' \<Longrightarrow> imp' name st = Raised e st'"
  by (auto simp: extends_def)

lemma extends_Stuck:
  "extends imp imp' \<Longrightarrow> imp name st = Stuck r \<Longrightarrow> r \<noteq> OutOfFuel \<Longrightarrow> imp' name st = Stuck r"
  by (auto simp: extends_def)

lemmas extendsD = extends_Done extends_Raised extends_Stuck

lemma handle_fromlist_mono:
  assumes "extends imp imp'" and "handle_fromlist imp base xs st \<noteq> Stuck OutOfFuel"
  shows "handle_fromlist imp' base xs st = handle_fromlist imp base xs st"
  using assms(2)
proof (induction xs arbitrary: st)
  case Nil
  show ?case by simp
next
  case (Cons x xs)
  show ?case
  proof (cases "hasattr st base x")
    case True
    with Cons show ?thesis by simp
  next
    case False
    show ?thesis
    proof (cases "imp (base @ [x]) st")
      case (Done st')
      with False Cons extends_Done [OF assms(1) Done] show ?thesis by simp
    next
      case (Raised e st')
      with False Cons extends_Raised [OF assms(1) Raised] show ?thesis
        by (auto split: if_splits)
    next
      case (Stuck r)
      with False Cons.prems have "r \<noteq> OutOfFuel" by auto
      with False Stuck extends_Stuck [OF assms(1) Stuck] show ?thesis by simp
    qed
  qed
qed

lemma exec_from_mono:
  assumes "extends imp imp'" and "exec_from imp cur base xs st \<noteq> Stuck OutOfFuel"
  shows "exec_from imp' cur base xs st = exec_from imp cur base xs st"
proof (cases "imp base st")
  case (Done st1)
  from assms(2) Done have "hasattr st1 base ''__path__'' \<Longrightarrow>
      handle_fromlist imp base xs st1 \<noteq> Stuck OutOfFuel"
    by (auto simp: exec_from_def split: outcome.splits)
  with assms(1) have "hasattr st1 base ''__path__'' \<Longrightarrow>
      handle_fromlist imp' base xs st1 = handle_fromlist imp base xs st1"
    by (rule handle_fromlist_mono)
  with Done extends_Done [OF assms(1) Done] show ?thesis
    by (simp add: exec_from_def)
next
  case (Raised e st1)
  with extends_Raised [OF assms(1) Raised] show ?thesis
    by (simp add: exec_from_def)
next
  case (Stuck r)
  with assms(2) have "r \<noteq> OutOfFuel" by (auto simp: exec_from_def)
  with Stuck extends_Stuck [OF assms(1) Stuck] show ?thesis
    by (simp add: exec_from_def)
qed

lemma exec_star_mono:
  assumes "extends imp imp'" and "exec_star imp cur base st \<noteq> Stuck OutOfFuel"
  shows "exec_star imp' cur base st = exec_star imp cur base st"
proof (cases "imp base st")
  case (Done st1)
  have "handle_fromlist imp' base names st1 = handle_fromlist imp base names st1"
    if "getattr st1 base ''__all__'' = Some v" "str_items v = Some names"
      "hasattr st1 base ''__path__''" for v names
  proof -
    from assms(2) Done that have "handle_fromlist imp base names st1 \<noteq> Stuck OutOfFuel"
      by (auto simp: exec_star_def split: outcome.splits)
    with assms(1) show ?thesis by (rule handle_fromlist_mono)
  qed
  with Done extends_Done [OF assms(1) Done] show ?thesis
    by (simp add: exec_star_def split: option.splits)
next
  case (Raised e st1)
  with extends_Raised [OF assms(1) Raised] show ?thesis
    by (simp add: exec_star_def)
next
  case (Stuck r)
  with assms(2) have "r \<noteq> OutOfFuel" by (auto simp: exec_star_def)
  with Stuck extends_Stuck [OF assms(1) Stuck] show ?thesis
    by (simp add: exec_star_def)
qed

lemma exec_stmt_mono:
  assumes "extends imp imp'" and "exec_stmt imp cur pkg s st \<noteq> Stuck OutOfFuel"
  shows "exec_stmt imp' cur pkg s st = exec_stmt imp cur pkg s st"
proof (cases s)
  case (Import q)
  show ?thesis
  proof (cases q)
    case Nil
    with Import show ?thesis by simp
  next
    case (Cons t ts)
    show ?thesis
    proof (cases "imp q st")
      case (Done st1)
      from assms(2) Import Cons Done have "imp [t] st1 \<noteq> Stuck OutOfFuel"
        by (auto split: outcome.splits)
      with assms(1) have "imp' [t] st1 = imp [t] st1"
        by (simp add: extends_def)
      with Import Cons Done extends_Done [OF assms(1) Done] show ?thesis by simp
    next
      case (Raised e st1)
      with Import Cons extends_Raised [OF assms(1) Raised] show ?thesis by simp
    next
      case (Stuck r)
      with assms(2) Import Cons have "r \<noteq> OutOfFuel" by auto
      with Import Cons Stuck extends_Stuck [OF assms(1) Stuck] show ?thesis by simp
    qed
  qed
next
  case (FromImport l m xs)
  with assms show ?thesis
    by (auto simp: exec_from_mono split: sum.splits)
next
  case (FromImportStar l m)
  with assms show ?thesis
    by (auto simp: exec_star_mono split: sum.splits)
qed simp_all

lemma exec_stmts_mono:
  assumes "extends imp imp'" and "exec_stmts imp cur pkg ss st \<noteq> Stuck OutOfFuel"
  shows "exec_stmts imp' cur pkg ss st = exec_stmts imp cur pkg ss st"
  using assms(2)
proof (induction ss arbitrary: st)
  case Nil
  show ?case by simp
next
  case (Cons s ss)
  from Cons.prems have "exec_stmt imp cur pkg s st \<noteq> Stuck OutOfFuel"
    by (auto split: outcome.splits)
  with assms(1) have step: "exec_stmt imp' cur pkg s st = exec_stmt imp cur pkg s st"
    by (rule exec_stmt_mono)
  show ?case
  proof (cases "exec_stmt imp cur pkg s st")
    case (Done st1)
    with Cons step show ?thesis by simp
  qed (simp_all add: step)
qed

lemma load_unlocked_mono:
  assumes "extends imp imp'" and "load_unlocked imp name sp st \<noteq> Stuck OutOfFuel"
  shows "load_unlocked imp' name sp st = load_unlocked imp name sp st"
proof (cases "body sp")
  case None
  then show ?thesis by (simp add: load_unlocked_def)
next
  case (Some ss)
  with assms(2) have "exec_stmts imp name (spec_parent name sp) ss (init_module name sp ss st)
      \<noteq> Stuck OutOfFuel"
    by (auto simp: load_unlocked_def split: outcome.splits)
  with assms(1) have "exec_stmts imp' name (spec_parent name sp) ss (init_module name sp ss st) =
      exec_stmts imp name (spec_parent name sp) ss (init_module name sp ss st)"
    by (rule exec_stmts_mono)
  with Some show ?thesis by (simp add: load_unlocked_def)
qed

lemma find_and_load_mono:
  assumes "extends imp imp'"
  shows "extends (find_and_load imp F) (find_and_load imp' F)"
  unfolding extends_def
proof (intro allI impI)
  fix name st
  assume ok: "find_and_load imp F name st \<noteq> Stuck OutOfFuel"
  have load: "load_unlocked imp' name sp st1 = load_unlocked imp name sp st1"
    if "load_unlocked imp name sp st1 \<noteq> Stuck OutOfFuel" for sp st1
    using assms that by (rule load_unlocked_mono)
  show "find_and_load imp' F name st = find_and_load imp F name st"
  proof (cases "name = [] \<or> dict_has st name")
    case True
    then show ?thesis by (auto simp: find_and_load_def)
  next
    case False
    show ?thesis
    proof (cases "butlast name = []")
      case True
      with False ok load show ?thesis
        by (auto simp: find_and_load_def split: option.splits)
    next
      case top: False
      let ?parent = "if dict_has st (butlast name) then Done st else imp (butlast name) st"
      let ?parent' = "if dict_has st (butlast name) then Done st else imp' (butlast name) st"
      from ok False top have "?parent \<noteq> Stuck OutOfFuel"
        by (auto simp: find_and_load_def split: if_splits)
      with assms have parent: "?parent' = ?parent"
        by (auto simp: extends_def)
      show ?thesis
      proof (cases ?parent)
        case (Done st1)
        with ok False top have "load_unlocked imp name sp st1 \<noteq> Stuck OutOfFuel"
          if "\<not> dict_has st1 name" "dict_has st1 (butlast name)"
            "hasattr st1 (butlast name) ''__path__''" "F name = Some sp" for sp
          using that by (auto simp: find_and_load_def split: outcome.splits)
        with load have "load_unlocked imp' name sp st1 = load_unlocked imp name sp st1"
          if "\<not> dict_has st1 name" "dict_has st1 (butlast name)"
            "hasattr st1 (butlast name) ''__path__''" "F name = Some sp" for sp
          using that by blast
        with False top parent Done show ?thesis
          by (simp add: find_and_load_def split: option.splits)
      qed (use False top parent in \<open>simp_all add: find_and_load_def\<close>)
    qed
  qed
qed

text \<open>More fuel never changes a result.\<close>

theorem import_module_mono: "extends (import_module n F) (import_module (n + k) F)"
proof (induction k)
  case 0
  show ?case by simp
next
  case (Suc k)
  have "extends (import_module m F) (import_module (Suc m) F)" for m
  proof (induction m)
    case 0
    show ?case by (simp add: extends_def)
  next
    case (Suc m)
    then show ?case by (simp add: find_and_load_mono)
  qed
  with Suc show ?case
    by (auto intro: extends_trans)
qed

corollary import_module_more_fuel:
  assumes "import_module n F name st = r" and "r \<noteq> Stuck OutOfFuel" and "n \<le> m"
  shows "import_module m F name st = r"
proof -
  from assms(3) obtain k where "m = n + k"
    by (auto simp: le_iff_add)
  with import_module_mono [of n F k] assms(1,2) show ?thesis
    by (auto simp: extends_def)
qed

end
