(* ===== verification/Distribution.thy ===== *)
theory Distribution
  imports Pkg_Sources
begin

text \<open>
  The packaging script \<^verbatim>\<open>setup.py\<close>: the file it reads, the keyword
  arguments it passes to \<^verbatim>\<open>setuptools.setup\<close>, and what two of them mean for
  the files of the distribution: \<^verbatim>\<open>find_packages(where="src")\<close> as the walk
  of setuptools' package finder over a tree, and \<^verbatim>\<open>package_dir\<close> as the choice
  of files that \<^verbatim>\<open>build_py\<close> copies (\<open>build_lib\<close>).

  The script is run in the root of the tree, so \<^verbatim>\<open>README.md\<close> and \<^verbatim>\<open>src\<close> are
  paths from the root. The walk lists the packages in the order in which the
  tree lists its files; \<^verbatim>\<open>os.walk\<close> leaves the order to the file system, and
  every statement below is about the set of packages or about lookups by path.
\<close>

section \<open>Package discovery\<close>

text \<open>
  \<^verbatim>\<open>find_packages(where)\<close> walks the directory \<^verbatim>\<open>where\<close> top down. In each
  directory it keeps the subdirectories whose name has no dot and that hold an
  \<^verbatim>\<open>__init__.py\<close>, reports them as packages, and descends only into those.
  \<open>pkg_chain\<close> is the closed form: a package is a chain of such directories.
\<close>

definition max_depth :: "repo \<Rightarrow> nat" where
  "max_depth r = foldr (\<lambda>p. max (length p)) (dict_keys r) 0"

definition looks_like_package :: "repo \<Rightarrow> path \<Rightarrow> bool" where
  "looks_like_package r d \<longleftrightarrow> is_file r (d @ [''__init__.py''])"

definition package_dirs :: "repo \<Rightarrow> path \<Rightarrow> string list" where
  "package_dirs r d =
     filter (\<lambda>n. CHR ''.'' \<notin> set n \<and> looks_like_package r (d @ [n]))
       (filter (\<lambda>n. is_dir r (d @ [n])) (listdir r d))"

lemma is_file_depth: "is_file r p \<Longrightarrow> length p \<le> max_depth r"
proof -
  have "p \<in> set ps \<Longrightarrow> length p \<le> foldr (\<lambda>p. max (length p)) ps 0" for ps :: "path list"
    by (induction ps) auto
  moreover assume "is_file r p"
  then have "p \<in> set (dict_keys r)"
    by (auto simp: is_file_def map_of_eq_None_iff)
  ultimately show ?thesis
    by (simp add: max_depth_def)
qed

lemma package_dirs_iff:
  "n \<in> set (package_dirs r d) \<longleftrightarrow> CHR ''.'' \<notin> set n \<and> looks_like_package r (d @ [n])"
proof -
  have "is_dir r (d @ [n]) \<and> n \<in> set (listdir r d)" if "looks_like_package r (d @ [n])"
  proof
    from that show "is_dir r (d @ [n])"
      unfolding looks_like_package_def by (rule is_file_parent_dir)
    from that have "d @ [n, ''__init__.py''] \<in> set (dict_keys r)"
      by (auto simp: looks_like_package_def is_file_def map_of_eq_None_iff)
    moreover have "below d (d @ [n, ''__init__.py''])" "(d @ [n, ''__init__.py'']) ! length d = n"
      by simp_all
    ultimately show "n \<in> set (listdir r d)"
      unfolding listdir_iff by blast
  qed
  then show ?thesis
    by (auto simp: package_dirs_def)
qed

function walk_packages :: "repo \<Rightarrow> path \<Rightarrow> qualname \<Rightarrow> qualname list" where
  "walk_packages r w rel =
     (let kept = package_dirs r (w @ rel)
      in map (\<lambda>n. rel @ [n]) kept @ concat (map (\<lambda>n. walk_packages r w (rel @ [n])) kept))"
  by pat_completeness auto
termination
proof (relation "measure (\<lambda>(r, w, rel). max_depth r - length (w @ rel))")
  show "wf (measure (\<lambda>(r, w, rel). max_depth r - length (w @ rel)))"
    by simp
next
  fix r :: repo and w rel kept n
  assume "kept = package_dirs r (w @ rel)" and "n \<in> set kept"
  then have "is_file r ((w @ rel) @ [n] @ [''__init__.py''])"
    by (simp add: package_dirs_iff looks_like_package_def)
  then have "length ((w @ rel) @ [n] @ [''__init__.py'']) \<le> max_depth r"
    by (rule is_file_depth)
  then show "((r, w, rel @ [n]), (r, w, rel)) \<in> measure (\<lambda>(r, w, rel). max_depth r - length (w @ rel))"
    by simp
qed

declare walk_packages.simps [simp del]

fun pkg_chain :: "repo \<Rightarrow> path \<Rightarrow> qualname \<Rightarrow> bool" where
  "pkg_chain r base [] = True"
| "pkg_chain r base (n # q) =
     (CHR ''.'' \<notin> set n \<and> looks_like_package r (base @ [n]) \<and> pkg_chain r (base @ [n]) q)"

definition parse_path :: "string \<Rightarrow> path" where
  "parse_path s = filter (\<lambda>n. n \<noteq> [] \<and> n \<noteq> ''.'') (split_on CHR ''/'' s)"

definition find_packages :: "repo \<Rightarrow> string \<Rightarrow> string list" where
  "find_packages r wh = map dotted (walk_packages r (parse_path wh) [])"

lemma walk_packages_iff:
  "q \<in> set (walk_packages r w rel) \<longleftrightarrow>
     (\<exists>q'. q = rel @ q' \<and> q' \<noteq> [] \<and> pkg_chain r (w @ rel) q')"
proof (induction r w rel arbitrary: q rule: walk_packages.induct)
  case (1 r w rel)
  let ?kept = "package_dirs r (w @ rel)"
  have "q \<in> set (walk_packages r w rel) \<longleftrightarrow>
      (\<exists>n \<in> set ?kept. q = rel @ [n] \<or> q \<in> set (walk_packages r w (rel @ [n])))"
    by (subst walk_packages.simps) (auto simp: Let_def)
  also have "\<dots> \<longleftrightarrow> (\<exists>n \<in> set ?kept. \<exists>q''. q = rel @ n # q'' \<and> pkg_chain r (w @ rel @ [n]) q'')"
  proof (intro bex_cong refl)
    fix n assume n: "n \<in> set ?kept"
    have "q = rel @ [n] \<or> (\<exists>q'. q = (rel @ [n]) @ q' \<and> q' \<noteq> [] \<and> pkg_chain r (w @ rel @ [n]) q')
        \<longleftrightarrow> (\<exists>q''. q = rel @ n # q'' \<and> pkg_chain r (w @ rel @ [n]) q'')"
      by (metis append.assoc append_Cons append_Nil append_Nil2 pkg_chain.simps(1))
    with "1.IH" [OF refl n, of q] show "q = rel @ [n] \<or> q \<in> set (walk_packages r w (rel @ [n]))
        \<longleftrightarrow> (\<exists>q''. q = rel @ n # q'' \<and> pkg_chain r (w @ rel @ [n]) q'')"
      by simp
  qed
  also have "\<dots> \<longleftrightarrow> (\<exists>q'. q = rel @ q' \<and> q' \<noteq> [] \<and> pkg_chain r (w @ rel) q')"
  proof
    assume "\<exists>n \<in> set ?kept. \<exists>q''. q = rel @ n # q'' \<and> pkg_chain r (w @ rel @ [n]) q''"
    then obtain n q'' where "n \<in> set ?kept" "q = rel @ n # q''" "pkg_chain r (w @ rel @ [n]) q''"
      by blast
    then have "q = rel @ (n # q'') \<and> n # q'' \<noteq> [] \<and> pkg_chain r (w @ rel) (n # q'')"
      by (simp add: package_dirs_iff)
    then show "\<exists>q'. q = rel @ q' \<and> q' \<noteq> [] \<and> pkg_chain r (w @ rel) q'"
      by blast
  next
    assume "\<exists>q'. q = rel @ q' \<and> q' \<noteq> [] \<and> pkg_chain r (w @ rel) q'"
    then obtain n q'' where "q = rel @ n # q''" "pkg_chain r (w @ rel) (n # q'')"
      by (metis list.exhaust)
    then show "\<exists>n \<in> set ?kept. \<exists>q''. q = rel @ n # q'' \<and> pkg_chain r (w @ rel @ [n]) q''"
      by (auto simp: package_dirs_iff)
  qed
  finally show ?case .
qed

lemma walk_packages_leaf: "package_dirs r (w @ rel) = [] \<Longrightarrow> walk_packages r w rel = []"
  by (subst walk_packages.simps) simp

lemma find_packages_iff:
  "s \<in> set (find_packages r wh) \<longleftrightarrow>
     (\<exists>q. s = dotted q \<and> q \<noteq> [] \<and> pkg_chain r (parse_path wh) q)"
  by (auto simp: find_packages_def walk_packages_iff)

section \<open>The call of setup\<close>

datatype 'a result = Returns 'a | Raises py_error | Outside path

record distribution =
  dist_name :: string
  dist_version :: string
  dist_author :: string
  dist_author_email :: string
  dist_description :: string
  dist_long_description :: string
  dist_long_description_content_type :: string
  dist_url :: string
  dist_packages :: "string list"
  dist_package_dir :: "(string, string) dict"
  dist_classifiers :: "string list"
  dist_python_requires :: string
  dist_install_requires :: "string list"
  dist_extras_require :: "(string, string list) dict"
  dist_include_package_data :: bool
  dist_zip_safe :: bool

definition read_text :: "repo \<Rightarrow> string \<Rightarrow> string result" where
  "read_text r f =
     (case map_of r (parse_path f) of
        None \<Rightarrow>
          (if is_dir r (parse_path f) then Raises (IsADirectoryError f)
           else Raises (FileNotFoundError f))
      | Some (Text s) \<Rightarrow> Returns s
      | Some _ \<Rightarrow> Outside (parse_path f))"

definition setup_name :: string where
  "setup_name = ''monte-carlo-option-pricing-lab''"

definition setup_version :: string where
  "setup_version = ''0.1.0''"

definition setup_author :: string where
  "setup_author = ''Lorenzo Mart'' @ [CHR 0xED] @ ''nez Malvar''"

definition setup_author_email :: string where
  "setup_author_email = ''lorenlorenloren@gmail.com''"

definition setup_description :: string where
  "setup_description =
     ''Professional quantitative finance lab for option pricing using Monte Carlo simulations''"

definition setup_content_type :: string where
  "setup_content_type = ''text/markdown''"

definition setup_url :: string where
  "setup_url = ''https://github.com/lorenlorenloren/monte-carlo-option-pricing-lab''"

definition setup_where :: string where
  "setup_where = ''src''"

definition setup_package_dir :: "(string, string) dict" where
  "setup_package_dir = [([], ''src'')]"

definition setup_classifiers :: "string list" where
  "setup_classifiers =
     [''Programming Language :: Python :: 3'',
      ''Programming Language :: Python :: 3.8'',
      ''Programming Language :: Python :: 3.9'',
      ''Programming Language :: Python :: 3.10'',
      ''Programming Language :: Python :: 3.11'',
      ''License :: OSI Approved :: MIT License'',
      ''Operating System :: OS Independent'',
      ''Development Status :: 3 - Alpha'',
      ''Intended Audience :: Financial and Insurance Industry'',
      ''Intended Audience :: Education'',
      ''Topic :: Office/Business :: Financial :: Investment'']"

definition setup_python_requires :: string where
  "setup_python_requires = ''>=3.8''"

definition setup_install_requires :: "string list" where
  "setup_install_requires =
     [''numpy>=1.21.0'', ''scipy>=1.7.0'', ''pandas>=1.3.0'', ''yfinance>=0.1.70'',
      ''matplotlib>=3.4.0'']"

definition setup_extras_require :: "(string, string list) dict" where
  "setup_extras_require =
     [(''dev'', [''pytest'', ''pytest-cov'', ''jupyter'']),
      (''gpu'', [''jax>=0.2.0''])]"

definition setup_py :: "repo \<Rightarrow> distribution result" where
  "setup_py r =
     (case read_text r ''README.md'' of
        Raises e \<Rightarrow> Raises e
      | Outside p \<Rightarrow> Outside p
      | Returns long_description \<Rightarrow>
          Returns
            \<lparr>dist_name = setup_name,
             dist_version = setup_version,
             dist_author = setup_author,
             dist_author_email = setup_author_email,
             dist_description = setup_description,
             dist_long_description = long_description,
             dist_long_description_content_type = setup_content_type,
             dist_url = setup_url,
             dist_packages = find_packages r setup_where,
             dist_package_dir = setup_package_dir,
             dist_classifiers = setup_classifiers,
             dist_python_requires = setup_python_requires,
             dist_install_requires = setup_install_requires,
             dist_extras_require = setup_extras_require,
             dist_include_package_data = True,
             dist_zip_safe = False\<rparr>)"

lemmas setup_defs [src_defs] =
  setup_name_def setup_version_def setup_author_def setup_author_email_def
  setup_description_def setup_content_type_def setup_url_def setup_where_def
  setup_package_dir_def setup_classifiers_def setup_python_requires_def
  setup_install_requires_def setup_extras_require_def

section \<open>The files that are built\<close>

definition package_root :: "distribution \<Rightarrow> path" where
  "package_root d =
     (case map_of (dist_package_dir d) [] of None \<Rightarrow> [] | Some s \<Rightarrow> parse_path s)"

definition is_py_file :: "string \<Rightarrow> bool" where
  "is_py_file f \<longleftrightarrow> 3 < length f \<and> drop (length f - 3) f = ''.py''"

definition build_lib :: "repo \<Rightarrow> distribution \<Rightarrow> repo" where
  "build_lib r d =
     concat (map (\<lambda>pk.
        map (\<lambda>(p, c). (drop (length (package_root d)) p, c))
          (filter (\<lambda>(p, c). p \<noteq> [] \<and> butlast p = package_root d @ parse_dotted pk
                     \<and> is_py_file (last p)) r))
       (dist_packages d))"

text \<open>
  \<open>with_readme s\<close> is the checkout with a \<^verbatim>\<open>README.md\<close> of text \<open>s\<close> beside
  \<^verbatim>\<open>setup.py\<close>, the tree on which the script can run to the end.
\<close>

definition with_readme :: "string \<Rightarrow> repo" where
  "with_readme s = ([''README.md''], Text s) # repo_files"

section \<open>What the script does\<close>

lemma parse_path_plain [simp]:
  "CHR ''/'' \<notin> set s \<Longrightarrow> s \<noteq> [] \<Longrightarrow> s \<noteq> ''.'' \<Longrightarrow> parse_path s = [s]"
  by (simp add: parse_path_def split_on_no_sep)

lemma readme_path [simp]: "parse_path ''README.md'' = [''README.md'']"
  by simp

lemma where_path [simp]: "parse_path setup_where = [''src'']"
  by (simp add: setup_where_def)

text \<open>
  C10. The script opens \<^verbatim>\<open>README.md\<close> before it calls \<^verbatim>\<open>setup\<close>. In a tree
  that has no file of that name it raises and no distribution is described,
  whatever else the tree holds: \<^verbatim>\<open>IsADirectoryError\<close> where \<^verbatim>\<open>README.md\<close> is
  a directory, \<^verbatim>\<open>FileNotFoundError\<close> otherwise.
\<close>

theorem setup_py_without_readme:
  assumes "\<not> is_file r [''README.md'']"
  shows "setup_py r =
    Raises (if is_dir r [''README.md''] then IsADirectoryError ''README.md''
            else FileNotFoundError ''README.md'')"
  using assms by (simp add: setup_py_def read_text_def is_file_def)

theorem setup_py_without_readme_witness:
  "setup_py repo_files = Raises (FileNotFoundError ''README.md'')"
  using setup_py_without_readme [of repo_files]
  by (simp add: is_file_def is_dir_def below_def repo_files_def)

text \<open>
  C11. In a tree whose \<^verbatim>\<open>README.md\<close> is a text file the script returns a
  distribution: its long description is the text of the file, its name and
  version are the literals of the script, and its packages are exactly the
  dotted names of the chains of directories below \<^verbatim>\<open>src\<close> that each hold an
  \<^verbatim>\<open>__init__.py\<close> and have no dot in their name.
\<close>

theorem setup_py_with_readme:
  assumes "map_of r [''README.md''] = Some (Text s)"
  shows "\<exists>d. setup_py r = Returns d \<and> dist_long_description d = s
     \<and> dist_name d = setup_name \<and> dist_version d = setup_version
     \<and> set (dist_packages d) = {dotted q |q. q \<noteq> [] \<and> pkg_chain r [''src''] q}"
  using assms by (auto simp: setup_py_def read_text_def find_packages_iff)

theorem setup_py_with_readme_witness:
  "\<exists>d. setup_py (with_readme ''lab'') = Returns d
     \<and> dist_long_description d = ''lab''
     \<and> dist_name d = setup_name \<and> dist_version d = setup_version
     \<and> set (dist_packages d) =
         {dotted q |q. q \<noteq> [] \<and> pkg_chain (with_readme ''lab'') [''src''] q}"
  using setup_py_with_readme [of "with_readme ''lab''" "''lab''"] by (simp add: with_readme_def)

lemmas tree_eval =
  package_dirs_def listdir_def is_dir_def below_def looks_like_package_def is_file_def

lemma find_packages_with_readme:
  "find_packages (with_readme s) setup_where = [''models'', ''pricing'']"
proof -
  have "package_dirs (with_readme s) [''src''] = [''models'', ''pricing'']"
    and "package_dirs (with_readme s) [''src'', ''models''] = []"
    and "package_dirs (with_readme s) [''src'', ''pricing''] = []"
    by (simp_all add: tree_eval with_readme_def repo_files_def)
  then show ?thesis
    by (simp add: find_packages_def walk_packages.simps [of _ _ "[]"] walk_packages_leaf
        dotted_def)
qed

lemma setup_py_with_readme_Returns: "\<exists>d. setup_py (with_readme s) = Returns d"
  by (simp add: setup_py_def read_text_def with_readme_def)

lemma build_lib_with_readme:
  assumes "setup_py (with_readme s) = Returns d"
  shows "build_lib (with_readme s) d =
    [([''models'', ''__init__.py''], PySource models_init),
     ([''pricing'', ''__init__.py''], PySource pricing_init)]"
proof -
  from assms have "dist_packages d = [''models'', ''pricing'']" "package_root d = [''src'']"
    by (auto simp: setup_py_def package_root_def setup_package_dir_def
        find_packages_with_readme split: result.splits)
  then show ?thesis
    by (simp add: build_lib_def with_readme_def repo_files_def parse_dotted_def is_py_file_def)
qed

section \<open>What is built\<close>

lemma pkg_chain_names:
  "pkg_chain r base q \<Longrightarrow> wf_tree r \<Longrightarrow> n \<in> set q \<Longrightarrow> n \<noteq> [] \<and> CHR ''.'' \<notin> set n"
proof (induction r base q rule: pkg_chain.induct)
  case (1 r base)
  then show ?case by simp
next
  case (2 r base m q)
  from "2.prems" have "is_file r (base @ [m, ''__init__.py''])"
    by (simp add: looks_like_package_def)
  with "2.prems"(2) have "m \<noteq> []"
    by (auto dest: wf_tree_file)
  with 2 show ?case by auto
qed

lemma dotted_nonempty: "q \<noteq> [] \<Longrightarrow> [] \<notin> set q \<Longrightarrow> dotted q \<noteq> []"
  unfolding dotted_def by (induction "CHR ''.''" q rule: join.induct) auto

lemma parse_dotted_dotted:
  assumes "q \<noteq> []" and "\<forall>n \<in> set q. n \<noteq> [] \<and> CHR ''.'' \<notin> set n"
  shows "parse_dotted (dotted q) = q"
proof -
  from assms have "dotted q \<noteq> []"
    by (intro dotted_nonempty) auto
  with assms show ?thesis
    by (simp add: parse_dotted_def dotted_def split_on_join)
qed

lemma find_packages_chain:
  assumes "pk \<in> set (find_packages r wh)" and "wf_tree r"
  obtains q where "parse_dotted pk = q" and "q \<noteq> []" and "pkg_chain r (parse_path wh) q"
proof -
  from assms(1) obtain q where q: "pk = dotted q" "q \<noteq> []" "pkg_chain r (parse_path wh) q"
    by (auto simp: find_packages_iff)
  with assms(2) have "\<forall>n \<in> set q. n \<noteq> [] \<and> CHR ''.'' \<notin> set n"
    by (blast dest: pkg_chain_names)
  with q have "parse_dotted pk = q"
    by (simp add: parse_dotted_dotted)
  with q that show thesis by blast
qed

lemma build_lib_member:
  assumes "(p, c) \<in> set (build_lib r d)"
  shows "\<exists>pk f. pk \<in> set (dist_packages d) \<and> p = parse_dotted pk @ [f]
     \<and> is_py_file f \<and> (package_root d @ p, c) \<in> set r"
proof -
  from assms obtain pk p' where pk: "pk \<in> set (dist_packages d)" and p': "(p', c) \<in> set r"
    "p' \<noteq> []" "butlast p' = package_root d @ parse_dotted pk" "is_py_file (last p')"
    "p = drop (length (package_root d)) p'"
    by (auto simp: build_lib_def)
  from p'(2,3) have "p' = package_root d @ parse_dotted pk @ [last p']"
    by (metis append.assoc append_butlast_last_id)
  then have "drop (length (package_root d)) p' = parse_dotted pk @ [last p']"
    "package_root d @ drop (length (package_root d)) p' = p'"
    by (metis append_eq_conv_conj)+
  with pk p' show ?thesis by auto
qed

lemma build_lib_chain:
  assumes "setup_py r = Returns d" and "wf_tree r" and "(p, c) \<in> set (build_lib r d)"
  shows "\<exists>q f. p = q @ [f] \<and> q \<noteq> [] \<and> pkg_chain r [''src''] q \<and> is_py_file f
     \<and> ([''src''] @ p, c) \<in> set r"
proof -
  from assms(1) have d: "dist_packages d = find_packages r setup_where"
    "package_root d = [''src'']"
    by (auto simp: setup_py_def package_root_def setup_package_dir_def split: result.splits)
  from assms(3) obtain pk f where "pk \<in> set (dist_packages d)" "p = parse_dotted pk @ [f]"
    "is_py_file f" "(package_root d @ p, c) \<in> set r"
    using build_lib_member by blast
  moreover from this(1) d assms(2) obtain q where "parse_dotted pk = q" "q \<noteq> []"
    "pkg_chain r [''src''] q"
    by (auto elim: find_packages_chain)
  ultimately show ?thesis using d by auto
qed

lemma build_lib_complete:
  assumes "setup_py r = Returns d" and "wf_tree r"
    and "q \<noteq> []" and "pkg_chain r [''src''] q" and "is_py_file f"
    and "([''src''] @ q @ [f], c) \<in> set r"
  shows "(q @ [f], c) \<in> set (build_lib r d)"
proof -
  from assms(1) have d: "dist_packages d = find_packages r setup_where"
    "package_root d = [''src'']"
    by (auto simp: setup_py_def package_root_def setup_package_dir_def split: result.splits)
  from assms(2,4) have "\<forall>n \<in> set q. n \<noteq> [] \<and> CHR ''.'' \<notin> set n"
    by (blast dest: pkg_chain_names)
  with assms(3) have "parse_dotted (dotted q) = q"
    by (rule parse_dotted_dotted)
  moreover from assms(3,4) d have "dotted q \<in> set (dist_packages d)"
    by (auto simp: find_packages_iff)
  ultimately show ?thesis
    using assms(5,6) d(2) by (force simp: build_lib_def butlast_append)
qed


lemma wf_with_readme: "wf_tree (with_readme s)"
  by (simp add: wf_tree_def with_readme_def repo_files_def)


lemma build_lib_first:
  assumes "setup_py r = Returns d" and "wf_tree r" and "(p, c) \<in> set (build_lib r d)"
  shows "2 \<le> length p" and "looks_like_package r [''src'', hd p]"
proof -
  from assms obtain q f where "p = q @ [f]" "q \<noteq> []" "pkg_chain r [''src''] q"
    using build_lib_chain by blast
  then obtain n q' where "p = n # q' @ [f]" "pkg_chain r [''src''] (n # q')"
    by (cases q) auto
  then show "2 \<le> length p" and "looks_like_package r [''src'', hd p]"
    by simp_all
qed

end
