(* ===== verification/Spec2Isabelle.thy ===== *)
theory Spec2Isabelle
  imports Pkg_Behaviour Py_Fuel Distribution
begin

text \<open>
  \<^bold>\<open>Verification development for \<^verbatim>\<open>monte-carlo-option-pricing-lab\<close>.\<close>

  \<^bold>\<open>The program.\<close> The repository holds four Python files and no other code:
  the packaging script \<^verbatim>\<open>setup.py\<close> and the package initialisers
  \<^verbatim>\<open>src/__init__.py\<close>, \<^verbatim>\<open>src/models/__init__.py\<close> and
  \<^verbatim>\<open>src/pricing/__init__.py\<close>. The initialisers hold a docstring, metadata
  assignments, relative imports of sibling modules and an \<^verbatim>\<open>__all__\<close> list. The
  modules they import (\<^verbatim>\<open>european\<close>, \<^verbatim>\<open>american\<close>, \<^verbatim>\<open>exotic\<close>, \<^verbatim>\<open>engine\<close>,
  \<^verbatim>\<open>greeks\<close>, \<^verbatim>\<open>variance_reduction\<close>, \<^verbatim>\<open>portfolio\<close>, \<^verbatim>\<open>data\<close>, \<^verbatim>\<open>utils\<close>) are
  not in the repository, and neither is any of the simulation and estimation
  core that the specification describes (path generation, variance reduction,
  least-squares Monte Carlo, Greeks, aggregation). What can be verified is
  therefore what the four files do: what happens when the package is imported,
  in the checkout and in any other tree that holds these initialisers, and
  what the script hands to setuptools and what is built from it.

  \<^bold>\<open>The theories.\<close>

  \<^item> \<open>MC_Prelude\<close>: dictionaries as association lists in insertion order,
    \<open>split_on\<close> and \<open>join\<close>, the split of a list at the first occurrence of an
    element, and the theorem collections.
  \<^item> \<open>Py_Module\<close>: the Python fragment of the initialisers (\<open>stmt\<close>: docstring
    expression, assignment of a literal, \<^verbatim>\<open>import\<close>, \<^verbatim>\<open>from ... import\<close>, star
    import), values, exceptions (\<open>py_error\<close>), module specs and the finder
    interface (\<open>finder\<close>, \<open>provides_package\<close>), and the static reading of a
    body (\<open>get_docstring\<close>, \<open>bound_names\<close>, \<open>assigned\<close>, \<open>str_items\<close>).
  \<^item> \<open>Py_Import\<close>: the import system as a state transformer on \<^verbatim>\<open>sys.modules\<close>.
    \<open>find_and_load\<close> follows \<^verbatim>\<open>_find_and_load_unlocked\<close> of
    \<^verbatim>\<open>importlib._bootstrap\<close> (parent first, then the finder, then binding the
    child in the parent), \<open>load_unlocked\<close> follows \<^verbatim>\<open>_load_unlocked\<close> (register
    the module, run its body, unregister it when the body raises),
    \<open>handle_fromlist\<close>, \<open>import_from\<close> and \<open>exec_star\<close> follow
    \<^verbatim>\<open>_handle_fromlist\<close>, the \<^verbatim>\<open>IMPORT_FROM\<close> instruction and
    \<^verbatim>\<open>import *\<close>. The result of a run is an \<open>outcome\<close>: \<open>Done\<close> with the new
    module table, \<open>Raised\<close> with the exception and the table it leaves, or
    \<open>Stuck\<close> when the fuel is spent or a statement is outside the fragment.
  \<^item> \<open>Py_Fuel\<close>: the operations of \<open>Py_Import\<close> are monotone in their importer
    (\<open>extends\<close>), hence \<open>import_module_more_fuel\<close>: a run that ends with a
    result or an exception ends the same way with any larger fuel.
  \<^item> \<open>Py_Contracts\<close>: contracts for imports. \<open>loads imp name Q\<close> says that
    importing \<open>name\<close> into a state that has nothing at or below \<open>name\<close>
    succeeds, registers \<open>name\<close>, touches nothing outside the subtree of
    \<open>name\<close> apart from binding it in its parent, and establishes \<open>Q\<close>. The
    rules \<open>loads_leaf\<close>, \<open>exec_chain\<close> and \<open>loads_package\<close> compose such
    contracts for a package whose initialiser imports its submodules in turn.
    The failure side has the same shape: \<open>fails_cleanly imp name e\<close> says that
    importing \<open>name\<close> raises \<open>e\<close> and restores the table, and
    \<open>package_raises_after\<close> derives, for a package whose first imports load
    and whose next import fails cleanly, the exception of the package
    (\<open>sibling_error\<close>) and the table it leaves (\<open>orphans\<close>: the package is
    unregistered, the submodules that were loaded stay registered).
  \<^item> \<open>Repo_Tree\<close>: a checkout as a list of paths with contents, and
    \<open>path_finder\<close>, the finder of one \<^verbatim>\<open>sys.path\<close> entry over such a tree.
  \<^item> \<open>Pkg_Sources\<close>: the three initialisers, statement by statement
    (\<open>src_init\<close>, \<open>models_init\<close>, \<open>pricing_init\<close> and their parts), and the file
    list of the checkout (\<open>repo_files\<close>).
  \<^item> \<open>Pkg_Behaviour\<close>: what importing the package does. In every tree that
    lacks \<^verbatim>\<open>src/pricing/european\<close> it fails, for \<^verbatim>\<open>src\<close> and for each of its
    submodules; on a tree that has the imported modules (\<open>complete_tree\<close>) it
    succeeds and binds what \<^verbatim>\<open>__all__\<close> promises, also through
    \<^verbatim>\<open>from src import *\<close>; on a tree that has them up to some point
    (\<open>tree_up_to\<close>) it reports the first one that is missing.
  \<^item> \<open>Distribution\<close>: \<^verbatim>\<open>setup.py\<close> as the function \<open>setup_py\<close> from a tree to the
    keyword arguments of \<^verbatim>\<open>setup\<close> (record \<open>distribution\<close>), with the read of
    \<^verbatim>\<open>README.md\<close> that can fail (\<open>read_text\<close>); \<open>find_packages\<close> as the walk
    of setuptools' \<^verbatim>\<open>PackageFinder\<close> with its termination proof and closed
    form (\<open>pkg_chain\<close>); \<open>build_lib\<close>, the files that \<^verbatim>\<open>build_py\<close> copies for
    the packages and \<^verbatim>\<open>package_dir\<close> of a distribution, with its soundness
    (\<open>build_lib_iff\<close>).
  \<^item> This theory: the properties that span the package and its packaging,
    that is, what can be imported from the build of the script's distribution
    (\<open>installed_finder\<close>).

  \<^bold>\<open>Correspondence with the code.\<close> Every constant of \<open>Pkg_Sources\<close> and every
  \<open>setup_\<close> constant of \<open>Distribution\<close> transcribes the lines of one file; a
  module body is the list of its statements in source order. A module object is
  identified with its qualified name (\<open>ModuleV\<close>), and \<^verbatim>\<open>sys.modules\<close> maps
  qualified names to namespaces, so that binding a module in two places aliases
  it as in Python. The names that the import system itself sets
  (\<^verbatim>\<open>__name__\<close>, \<^verbatim>\<open>__path__\<close>, \<^verbatim>\<open>__spec__\<close>, ...) are \<open>reserved\<close>: a body that
  assigns one of them is outside the fragment and the model says so
  (\<open>Stuck (OutsideFragment name)\<close>) instead of guessing. An exception is its
  class and the data it carries, not its message: \<open>ImportError_cannot_import_name x m\<close>
  is the \<^verbatim>\<open>ImportError\<close> that \<^verbatim>\<open>IMPORT_FROM\<close> raises for the name \<open>x\<close> and the
  module \<open>m\<close>, which CPython words differently depending on whether \<open>m\<close> is
  still being initialised. A tree is a list; \<open>listdir\<close> and \<open>find_packages\<close>
  return their results in the order of that list, where \<^verbatim>\<open>os.walk\<close> leaves the
  order to the file system, so the theorems speak of membership and lookup and
  never of the position of a package in the result.

  \<^bold>\<open>Fuel.\<close> \<open>import_module n\<close> allows imports nested \<open>n\<close> deep: the body of a
  module imported with fuel \<open>Suc n\<close> imports with fuel \<open>n\<close>. Importing \<^verbatim>\<open>src\<close>
  nests three deep (\<^verbatim>\<open>src\<close>, \<^verbatim>\<open>src.pricing\<close>, \<^verbatim>\<open>src.pricing.european\<close>), a
  submodule of \<^verbatim>\<open>src\<close> four deep. Each theorem states the least fuel it needs
  and holds for every larger fuel, so none of them is true because the fuel ran
  out: where a theorem states an exception or a result, the run ends with it.
  \<open>Py_Fuel\<close> shows in general that the fuel has no other effect. The walk of
  \<open>find_packages\<close> needs no fuel: \<open>walk_packages\<close> is total, by a measure on
  the depth of the tree.

  \<^bold>\<open>What the lemmas show.\<close> The prelude and \<open>Py_Import\<close> give the evaluation
  rules of dictionaries, attributes and plain bodies. \<open>Py_Contracts\<close> gives the
  frame and composition rules, for imports that succeed and for imports that
  raise. On top of them: the import of \<^verbatim>\<open>src\<close> fails in every tree that lacks
  \<^verbatim>\<open>src.pricing.european\<close> and restores the module table, and so does the
  import of each submodule of \<^verbatim>\<open>src\<close>; on a complete tree the import succeeds,
  binds every exported name, initialises \<^verbatim>\<open>src.pricing\<close> and sets the metadata;
  in between, the import reports the first submodule that is missing and
  leaves the ones before it registered. The script raises without a file
  \<^verbatim>\<open>README.md\<close> and otherwise describes a distribution whose packages are
  \<^verbatim>\<open>models\<close> and \<^verbatim>\<open>pricing\<close>; in every well-formed tree the build holds
  exactly the \<^verbatim>\<open>.py\<close> files of the package directories found below \<^verbatim>\<open>src\<close>;
  the build has no module \<^verbatim>\<open>src\<close>, its \<^verbatim>\<open>pricing\<close> cannot be imported and its
  \<^verbatim>\<open>models\<close> exports nothing.

  \<^bold>\<open>Not modelled.\<close> The components of the specification (StochasticModel,
  PathGenerator, PayoffEvaluator, ExerciseBoundaryEstimator, PricingEngine,
  GreeksEstimator, ResultAggregator and their data types) have no code in the
  repository; nothing is claimed about them. Of setuptools only package
  discovery and the choice of files of \<^verbatim>\<open>build_py\<close> are modelled: the commands
  that \<^verbatim>\<open>setup\<close> runs, the import of setuptools itself, the reading of version
  specifiers and the installation of the requirements are outside; the
  metadata strings are carried as the script writes them. Of the import
  system, import locks, caches of byte code, path hooks, \<^verbatim>\<open>.pth\<close> files and the
  module \<^verbatim>\<open>__main__\<close> of a script beyond its initial namespace are outside; the
  finder is a parameter, and \<open>path_finder\<close> covers regular packages, plain
  modules and namespace packages of one directory. The bodies of the modules
  that the repository lacks are parameters of the theorems that need them:
  they are required to be plain (docstring and literal assignments), which is
  the fragment in which a body cannot raise.
\<close>

section \<open>The package and its packaging\<close>

definition installed_finder :: "repo \<Rightarrow> distribution \<Rightarrow> finder" where
  "installed_finder r d = path_finder (build_lib r d) []"

lemma installed_absent:
  assumes "setup_py r = Returns d" and "wf_tree r" and "\<not> looks_like_package r [''src'', n]"
  shows "installed_finder r d [n] = None"
proof -
  let ?B = "build_lib r d"
  have no: "hd p \<noteq> n \<and> 2 \<le> length p" if "(p, c) \<in> set ?B" for p c
    using build_lib_first [OF assms(1,2) that] assms(3) by auto
  have "map_of ?B p = None" if "hd p = n \<or> length p < 2" for p
  proof (cases "map_of ?B p")
    case (Some c)
    then have "(p, c) \<in> set ?B" by (rule map_of_SomeD)
    with no that show ?thesis by fastforce
  qed simp
  then have "map_of ?B [n, ''__init__.py''] = None" "map_of ?B [n @ ''.py''] = None"
    by simp_all
  moreover have "\<not> is_dir ?B [n]"
  proof
    assume "is_dir ?B [n]"
    then obtain p c where "(p, c) \<in> set ?B" "below [n] p"
      by (auto simp: is_dir_iff)
    with no [of p c] show False
      by (cases p) (auto simp: below_def)
  qed
  ultimately show ?thesis
    by (simp add: installed_finder_def path_finder_def)
qed

lemma installed_with_readme:
  assumes "setup_py (with_readme s) = Returns d"
  shows "provides_package (installed_finder (with_readme s) d) [''pricing''] pricing_init"
    and "provides_package (installed_finder (with_readme s) d) [''models''] models_init"
    and "installed_finder (with_readme s) d [''pricing'', ''european''] = None"
  by (simp_all add: installed_finder_def build_lib_with_readme [OF assms] provides_package_def
      path_finder_def is_dir_def below_def)

text \<open>
  C7. The distribution does not contain the package that carries the metadata.
  With \<^verbatim>\<open>package_dir={"": "src"}\<close> the directory \<^verbatim>\<open>src\<close> is the root of the
  installed tree, so unless the tree has a package \<^verbatim>\<open>src/src\<close>, an environment
  that holds only the build has no module named \<^verbatim>\<open>src\<close>: importing it raises
  \<^verbatim>\<open>ModuleNotFoundError\<close> and \<^verbatim>\<open>src/__init__.py\<close> is never run.
\<close>

theorem installed_src_not_found:
  assumes "setup_py r = Returns d" and "wf_tree r"
    and "\<not> is_file r [''src'', ''src'', ''__init__.py'']"
    and "\<not> dict_has st [''src'']" and "1 \<le> fuel"
  shows "import_module fuel (installed_finder r d) [''src''] st =
    Raised (ModuleNotFoundError [''src'']) st"
proof -
  from assms(5) obtain n where "fuel = 1 + n"
    by (rule fuel_at_least)
  moreover from assms(1-3) have "installed_finder r d [''src''] = None"
    by (intro installed_absent) (simp_all add: looks_like_package_def)
  ultimately show ?thesis
    using assms(4) by (simp add: find_and_load_missing)
qed

theorem installed_src_not_found_witness:
  "\<exists>d. setup_py (with_readme ''lab'') = Returns d
     \<and> import_module 1 (installed_finder (with_readme ''lab'') d) [''src''] [] =
         Raised (ModuleNotFoundError [''src'']) []"
proof -
  obtain d where d: "setup_py (with_readme ''lab'') = Returns d"
    using setup_py_with_readme_Returns by blast
  from d installed_src_not_found [OF d wf_with_readme, of "[]" 1] show ?thesis
    by (simp add: is_file_def with_readme_def repo_files_def)
qed

text \<open>
  C8. What the distribution does contain is \<^verbatim>\<open>src/pricing\<close> as a top-level
  package \<^verbatim>\<open>pricing\<close>, and that package cannot be imported: its initialiser
  asks for the sibling \<^verbatim>\<open>european\<close>, which the build does not have, and the
  import raises \<^verbatim>\<open>ImportError\<close> for the name \<^verbatim>\<open>european\<close> and the module \<^verbatim>\<open>pricing\<close>,
  leaving the module table as it was.
\<close>

theorem installed_pricing_import_fails:
  assumes "setup_py (with_readme s) = Returns d"
    and "\<not> dict_has st [''pricing'']" and "\<not> dict_has st [''pricing'', ''european'']"
    and "2 \<le> fuel"
  shows "import_module fuel (installed_finder (with_readme s) d) [''pricing''] st =
    Raised (ImportError_cannot_import_name ''european'' [''pricing'']) st"
proof -
  from assms(4) obtain n where "fuel = 2 + n"
    by (rule fuel_at_least)
  then have "fuel = Suc (Suc n)" by simp
  moreover have "import_module (Suc (Suc n)) (installed_finder (with_readme s) d) [''pricing''] st =
      Raised (ImportError_cannot_import_name ''european'' [''pricing'']) st"
    using installed_with_readme(1,3) [OF assms(1)] assms(2,3) by (rule toplevel_pricing_raises)
  ultimately show ?thesis by (simp only:)
qed

theorem installed_pricing_import_fails_witness:
  "\<exists>d. setup_py (with_readme ''lab'') = Returns d
     \<and> import_module 2 (installed_finder (with_readme ''lab'') d) [''pricing''] [] =
         Raised (ImportError_cannot_import_name ''european'' [''pricing'']) []"
proof -
  obtain d where d: "setup_py (with_readme ''lab'') = Returns d"
    using setup_py_with_readme_Returns by blast
  from d installed_pricing_import_fails [OF d, of "[]" 2] show ?thesis
    by simp
qed

text \<open>
  C9. The other package of the distribution, \<^verbatim>\<open>models\<close>, imports: its
  initialiser has no import statement. The import registers \<^verbatim>\<open>models\<close>,
  changes nothing else, and \<^verbatim>\<open>models.__all__\<close> is the empty list, so the one
  importable package of the distribution exports nothing.
\<close>

theorem installed_models_import:
  assumes "setup_py (with_readme s) = Returns d" and "untouched [''models''] st"
    and "1 \<le> fuel"
  shows "\<exists>st'. import_module fuel (installed_finder (with_readme s) d) [''models''] st = Done st'
     \<and> same_outside [''models''] st st' \<and> dict_has st' [''models'']
     \<and> getattr st' [''models''] ''__all__'' = Some (ListV (map StrV models_all))"
proof -
  from assms(3) obtain n where "fuel = 1 + n"
    by (rule fuel_at_least)
  then have fuel: "fuel = Suc n" by simp
  from assms(2) have "mod_pre [''models''] st"
    by (simp add: mod_pre_def)
  with toplevel_models_loads [OF installed_with_readme(2) [OF assms(1)], of n]
  obtain st' where "import_module (Suc n) (installed_finder (with_readme s) d) [''models''] st
      = Done st'" "mod_post [''models''] st st'" "binds_assigned [''models''] models_init st'"
    by (rule loadsE)
  with fuel models_assigned show ?thesis
    by (simp add: mod_post_def binds_assigned_def)
qed

theorem installed_models_import_witness:
  "\<exists>d st'. setup_py (with_readme ''lab'') = Returns d
     \<and> import_module 1 (installed_finder (with_readme ''lab'') d) [''models''] [] = Done st'
     \<and> same_outside [''models''] [] st' \<and> dict_has st' [''models'']
     \<and> getattr st' [''models''] ''__all__'' = Some (ListV (map StrV models_all))"
proof -
  obtain d where d: "setup_py (with_readme ''lab'') = Returns d"
    using setup_py_with_readme_Returns by blast
  from d installed_models_import [OF d, of "[]" 1] show ?thesis
    by auto
qed

end
